theory Spec2Isabelle
  imports Main "HOL-Library.Word"
begin

unbundle bit_operations_syntax

section \<open>Common types and constants\<close>

text \<open>
  The kernel targets RV32: \<open>uint32_t\<close>, \<open>paddr_t\<close>, \<open>size_t\<close> and pointers are
  32-bit words, \<open>uint64_t\<close> is a 64-bit word, \<open>uint16_t\<close> a 16-bit word and
  \<open>char\<close>/\<open>uint8_t\<close> a byte. Arithmetic on them wraps around.
\<close>

type_synonym u8 = "8 word"
type_synonym u16 = "16 word"
type_synonym u32 = "32 word"
type_synonym u64 = "64 word"

text \<open>
  A \<open>PANIC\<close> prints its message and halts the hart; a loop that never exits does not
  return either. A \<open>memcpy\<close> whose length is more than the object it copies to or from
  holds runs past that object, into other kernel objects and, for the lengths of
  \<open>2^31\<close> bytes and more that a negative \<open>int\<close> gives, out of mapped memory, where the
  kernel traps and halts: the statements after such a call are not reached.
  \<open>OutOfBounds n\<close> is that outcome, with the length of the call. Each is a result of
  its own.
\<close>

datatype error =
    Panic string
  | NeverReturns
  | OutOfBounds nat

text \<open>Lines the kernel prints with \<open>printf\<close>, and characters it hands to the SBI console.\<close>

datatype console_event =
    PutChar u8
  | Msg_capacity u32
  | Msg_sector_range u32 u64
  | Msg_disk_failed u32 u8
  | Msg_file_not_found u32
  | Msg_process_exited nat

text \<open>
  Modelled from the spec: \<open>kernel.h\<close> and \<open>common.h\<close> are not among the sources; the
  constants below are the values the specification lists for them (section 3 and
  section 6: page and sector size, register offsets, status bits, request types and
  descriptor flags, and a queue of 16 descriptors).
\<close>

definition PAGE_SIZE :: u32 where "PAGE_SIZE = 4096"
definition SECTOR_SIZE :: nat where "SECTOR_SIZE = 512"
definition VIRTQ_ENTRY_NUM :: nat where "VIRTQ_ENTRY_NUM = 16"

definition VIRTIO_REG_MAGIC :: u32 where "VIRTIO_REG_MAGIC = 0x00"
definition VIRTIO_REG_VERSION :: u32 where "VIRTIO_REG_VERSION = 0x04"
definition VIRTIO_REG_DEVICE_ID :: u32 where "VIRTIO_REG_DEVICE_ID = 0x08"
definition VIRTIO_REG_QUEUE_SEL :: u32 where "VIRTIO_REG_QUEUE_SEL = 0x30"
definition VIRTIO_REG_QUEUE_NUM :: u32 where "VIRTIO_REG_QUEUE_NUM = 0x38"
definition VIRTIO_REG_QUEUE_ALIGN :: u32 where "VIRTIO_REG_QUEUE_ALIGN = 0x3c"
definition VIRTIO_REG_QUEUE_PFN :: u32 where "VIRTIO_REG_QUEUE_PFN = 0x40"
definition VIRTIO_REG_QUEUE_NOTIFY :: u32 where "VIRTIO_REG_QUEUE_NOTIFY = 0x50"
definition VIRTIO_REG_DEVICE_STATUS :: u32 where "VIRTIO_REG_DEVICE_STATUS = 0x70"
definition VIRTIO_REG_DEVICE_CONFIG :: u32 where "VIRTIO_REG_DEVICE_CONFIG = 0x100"

definition VIRTIO_STATUS_ACK :: u32 where "VIRTIO_STATUS_ACK = 1"
definition VIRTIO_STATUS_DRIVER :: u32 where "VIRTIO_STATUS_DRIVER = 2"
definition VIRTIO_STATUS_DRIVER_OK :: u32 where "VIRTIO_STATUS_DRIVER_OK = 4"
definition VIRTIO_STATUS_FEAT_OK :: u32 where "VIRTIO_STATUS_FEAT_OK = 8"
definition VIRTIO_DEVICE_BLK :: u32 where "VIRTIO_DEVICE_BLK = 2"
definition VIRTIO_BLK_T_IN :: u32 where "VIRTIO_BLK_T_IN = 0"
definition VIRTIO_BLK_T_OUT :: u32 where "VIRTIO_BLK_T_OUT = 1"
definition VIRTQ_DESC_F_NEXT :: u16 where "VIRTQ_DESC_F_NEXT = 1"
definition VIRTQ_DESC_F_WRITE :: u16 where "VIRTQ_DESC_F_WRITE = 2"

lemmas virtio_consts =
  PAGE_SIZE_def SECTOR_SIZE_def VIRTQ_ENTRY_NUM_def
  VIRTIO_REG_MAGIC_def VIRTIO_REG_VERSION_def VIRTIO_REG_DEVICE_ID_def
  VIRTIO_REG_QUEUE_SEL_def VIRTIO_REG_QUEUE_NUM_def VIRTIO_REG_QUEUE_ALIGN_def
  VIRTIO_REG_QUEUE_PFN_def VIRTIO_REG_QUEUE_NOTIFY_def VIRTIO_REG_DEVICE_STATUS_def
  VIRTIO_REG_DEVICE_CONFIG_def VIRTIO_STATUS_ACK_def VIRTIO_STATUS_DRIVER_def
  VIRTIO_STATUS_DRIVER_OK_def VIRTIO_STATUS_FEAT_OK_def VIRTIO_DEVICE_BLK_def
  VIRTIO_BLK_T_IN_def VIRTIO_BLK_T_OUT_def VIRTQ_DESC_F_NEXT_def VIRTQ_DESC_F_WRITE_def

section \<open>The virtio-blk driver (virtio.c)\<close>

subsection \<open>Driver state\<close>

text \<open>
  Modelled from the spec: the structures \<open>virtq_desc\<close>, \<open>virtio_virtq\<close> and
  \<open>virtio_blk_req\<close> are declared in \<open>kernel.h\<close>, which is not among the sources. Their
  fields are the ones \<open>virtio.c\<close> reads and writes, with the widths of the legacy
  virtqueue layout of section 3: a descriptor is \<open>{addr: u64, len: u32, flags: u16,
  next: u16}\<close>, the request is a 16-byte header \<open>{type: u32, reserved: u32, sector: u64}\<close>
  followed by \<open>data[SECTOR_SIZE]\<close> and a status byte.
\<close>

record virtq_desc =
  desc_addr :: u64
  desc_len :: u32
  desc_flags :: u16
  desc_next :: u16

record virtio_virtq =
  descs :: "virtq_desc list"
  avail_index :: u16
  avail_ring :: "u16 list"
  used_index :: u16
  queue_index :: u32
  last_used_index :: u16

record virtio_blk_req =
  req_type :: u32
  req_reserved :: u32
  req_sector :: u64
  req_data :: "u8 list"
  req_status :: u8

definition offsetof_data :: u32 where "offsetof_data = 16"
definition offsetof_status :: u32 where "offsetof_status = 16 + 512"

text \<open>
  The device registers are a store from byte offsets (relative to \<open>VIRTIO_BLK_PADDR\<close>) to
  32-bit values: a register reads back what was last written to it; \<open>mmio_writes\<close>
  keeps every write in program order. A 64-bit read takes its low half at the offset
  and its high half four bytes further (the target is little-endian). \<open>next_paddr\<close>
  and \<open>free_ram_end\<close> are the page allocator's cursor and bound.
\<close>

record driver =
  mmio :: "u32 \<Rightarrow> u32"
  mmio_writes :: "(u32 \<times> u32) list"
  next_paddr :: u32
  free_ram_end :: u32
  blk_request_vq :: virtio_virtq
  blk_req :: virtio_blk_req
  blk_req_paddr :: u32
  blk_capacity :: u64
  console :: "console_event list"

subsection \<open>Register access helpers\<close>

definition virtio_reg_read32 :: "u32 \<Rightarrow> driver \<Rightarrow> u32" where
  "virtio_reg_read32 offset s = mmio s offset"

definition virtio_reg_read64 :: "u32 \<Rightarrow> driver \<Rightarrow> u64" where
  "virtio_reg_read64 offset s = word_cat (mmio s (offset + 4)) (mmio s offset)"

definition virtio_reg_write32 :: "u32 \<Rightarrow> u32 \<Rightarrow> driver \<Rightarrow> driver" where
  "virtio_reg_write32 offset v s =
     s\<lparr>mmio := (mmio s)(offset := v), mmio_writes := mmio_writes s @ [(offset, v)]\<rparr>"

definition virtio_reg_fetch_and_or32 :: "u32 \<Rightarrow> u32 \<Rightarrow> driver \<Rightarrow> driver" where
  "virtio_reg_fetch_and_or32 offset v s =
     virtio_reg_write32 offset (virtio_reg_read32 offset s OR v) s"

subsection \<open>Page allocation\<close>

text \<open>
  Modelled from the spec: \<open>alloc_pages\<close> lives in \<open>memory.c\<close>, which is not among the
  sources. Section 4.1: a bump allocator that hands out the current cursor, advances it
  by \<open>n * PAGE_SIZE\<close>, returns zeroed pages, and panics with "out of memory" when the
  cursor would pass the bound. \<open>align_up\<close> is the macro of \<open>common.h\<close>.
\<close>

definition alloc_pages :: "u32 \<Rightarrow> driver \<Rightarrow> error + (u32 \<times> driver)" where
  "alloc_pages n s =
     (let paddr = next_paddr s;
          nxt = paddr + n * PAGE_SIZE
      in if nxt > free_ram_end s then Inl (Panic ''out of memory'')
         else Inr (paddr, s\<lparr>next_paddr := nxt\<rparr>))"

definition align_up :: "u32 \<Rightarrow> u32 \<Rightarrow> u32" where
  "align_up v a = ((v + a - 1) div a) * a"

definition zero_desc :: virtq_desc where
  "zero_desc = \<lparr>desc_addr = 0, desc_len = 0, desc_flags = 0, desc_next = 0\<rparr>"

definition zero_virtq :: virtio_virtq where
  "zero_virtq =
     \<lparr>descs = replicate VIRTQ_ENTRY_NUM zero_desc, avail_index = 0,
      avail_ring = replicate VIRTQ_ENTRY_NUM 0, used_index = 0, queue_index = 0,
      last_used_index = 0\<rparr>"

definition zero_blk_req :: virtio_blk_req where
  "zero_blk_req =
     \<lparr>req_type = 0, req_reserved = 0, req_sector = 0,
      req_data = replicate SECTOR_SIZE 0, req_status = 0\<rparr>"

subsection \<open>Virtqueue management\<close>

text \<open>
  \<open>virtq_init\<close>: the queue is allocated (and zeroed) by \<open>alloc_pages\<close>; \<open>vq_size\<close> stands
  for \<open>sizeof(struct virtio_virtq)\<close>. The source returns a pointer to the queue, which
  is its physical address; the model returns the address and the queue it points to.
  The field \<open>used_index\<close> of the source, a pointer to \<open>used.index\<close>, is read through
  as \<open>used_index\<close> here.
\<close>

definition virtq_init ::
  "u32 \<Rightarrow> u32 \<Rightarrow> driver \<Rightarrow> error + ((u32 \<times> virtio_virtq) \<times> driver)" where
  "virtq_init vq_size index s =
     (case alloc_pages (align_up vq_size PAGE_SIZE div PAGE_SIZE) s of
        Inl e \<Rightarrow> Inl e
      | Inr (virtq_paddr, s1) \<Rightarrow>
          (let vq = zero_virtq\<lparr>queue_index := index\<rparr>;
               s2 = virtio_reg_write32 VIRTIO_REG_QUEUE_SEL index s1;
               s3 = virtio_reg_write32 VIRTIO_REG_QUEUE_NUM (of_nat VIRTQ_ENTRY_NUM) s2;
               s4 = virtio_reg_write32 VIRTIO_REG_QUEUE_ALIGN 0 s3;
               s5 = virtio_reg_write32 VIRTIO_REG_QUEUE_PFN virtq_paddr s4
           in Inr ((virtq_paddr, vq), s5)))"

definition virtq_kick :: "u16 \<Rightarrow> driver \<Rightarrow> driver" where
  "virtq_kick desc_index s =
     (let vq = blk_request_vq s;
          vq1 = vq\<lparr>avail_ring :=
                  (avail_ring vq)[unat (avail_index vq) mod VIRTQ_ENTRY_NUM := desc_index]\<rparr>;
          vq2 = vq1\<lparr>avail_index := avail_index vq1 + 1\<rparr>;
          s1 = virtio_reg_write32 VIRTIO_REG_QUEUE_NOTIFY (queue_index vq2)
                 (s\<lparr>blk_request_vq := vq2\<rparr>);
          vq3 = (blk_request_vq s1)\<lparr>last_used_index := last_used_index (blk_request_vq s1) + 1\<rparr>
      in s1\<lparr>blk_request_vq := vq3\<rparr>)"

definition virtq_is_busy :: "virtio_virtq \<Rightarrow> bool" where
  "virtq_is_busy vq = (last_used_index vq \<noteq> used_index vq)"

subsection \<open>Device initialisation\<close>

text \<open>
  \<open>virtio_blk_init\<close>; \<open>vq_size\<close> and \<open>req_size\<close> stand for \<open>sizeof(struct virtio_virtq)\<close>
  and \<open>sizeof(*blk_req)\<close>.
\<close>

definition virtio_blk_init :: "u32 \<Rightarrow> u32 \<Rightarrow> driver \<Rightarrow> error + driver" where
  "virtio_blk_init vq_size req_size s =
     (if virtio_reg_read32 VIRTIO_REG_MAGIC s \<noteq> 0x74726976
        then Inl (Panic ''virtio: invalid magic value'')
      else if virtio_reg_read32 VIRTIO_REG_VERSION s \<noteq> 1
        then Inl (Panic ''virtio: invalid version'')
      else if virtio_reg_read32 VIRTIO_REG_DEVICE_ID s \<noteq> VIRTIO_DEVICE_BLK
        then Inl (Panic ''virtio: invalid device id'')
      else
        (let s1 = virtio_reg_write32 VIRTIO_REG_DEVICE_STATUS 0 s;
             s2 = virtio_reg_fetch_and_or32 VIRTIO_REG_DEVICE_STATUS VIRTIO_STATUS_ACK s1;
             s3 = virtio_reg_fetch_and_or32 VIRTIO_REG_DEVICE_STATUS VIRTIO_STATUS_DRIVER s2;
             s4 = virtio_reg_fetch_and_or32 VIRTIO_REG_DEVICE_STATUS VIRTIO_STATUS_FEAT_OK s3
         in case virtq_init vq_size 0 s4 of
              Inl e \<Rightarrow> Inl e
            | Inr ((virtq_paddr, vq), s5) \<Rightarrow>
                (let s6 = s5\<lparr>blk_request_vq := vq\<rparr>;
                     s7 = virtio_reg_write32 VIRTIO_REG_DEVICE_STATUS VIRTIO_STATUS_DRIVER_OK s6;
                     cap = virtio_reg_read64 (VIRTIO_REG_DEVICE_CONFIG + 0) s7
                             * of_nat SECTOR_SIZE;
                     s8 = s7\<lparr>blk_capacity := cap,
                             console := console s7 @ [Msg_capacity (ucast cap)]\<rparr>
                 in (case alloc_pages (align_up req_size PAGE_SIZE div PAGE_SIZE) s8 of
                       Inl e \<Rightarrow> Inl e
                     | Inr (paddr, s9) \<Rightarrow>
                         Inr (s9\<lparr>blk_req_paddr := paddr, blk_req := zero_blk_req\<rparr>)))))"

subsection \<open>Sector requests\<close>

text \<open>
  Modelled from the spec: \<open>memcpy\<close> is one of the common utilities (\<open>common.c\<close> is not
  among the sources): it copies the first \<open>n\<close> bytes of \<open>src\<close> over the first \<open>n\<close> bytes
  of \<open>dst\<close>. Buffers are byte lists; the callers pass buffers of at least \<open>n\<close> bytes
  (\<open>virtio.h\<close>: "buf must be SECTOR_SIZE bytes").
\<close>

definition memcpy :: "u8 list \<Rightarrow> u8 list \<Rightarrow> nat \<Rightarrow> u8 list" where
  "memcpy dst src n = take n src @ drop n dst"

text \<open>
  The device is the environment of \<open>read_write_disk\<close>. What it does with one request is
  a \<open>dev_reply\<close>: the values the driver reads from \<open>used.index\<close> in successive
  iterations of its busy-wait loop, the sector contents the device stores in
  \<open>blk_req->data\<close> when the data descriptor is device-writable, and the status byte it
  stores in \<open>blk_req->status\<close>. A reply whose \<open>rep_used\<close> never shows the awaited index
  is a device that never completes: the loop does not exit.
\<close>

record dev_reply =
  rep_used :: "u16 list"
  rep_data :: "u8 list"
  rep_status :: u8

text \<open>The loop \<open>while (virtq_is_busy(vq)) ;\<close> over the successive reads of \<open>used.index\<close>.\<close>

fun busy_wait :: "virtio_virtq \<Rightarrow> u16 list \<Rightarrow> virtio_virtq option" where
  "busy_wait vq [] = None"
| "busy_wait vq (u # us) =
     (if virtq_is_busy (vq\<lparr>used_index := u\<rparr>) then busy_wait vq us
      else Some (vq\<lparr>used_index := u\<rparr>))"

text \<open>
  Lines 105 to 131 of \<open>read_write_disk\<close>: the request header, the three descriptors and
  the kick. \<open>is_write\<close> is a C \<open>int\<close> used as a truth value.
\<close>

definition build_request :: "u8 list \<Rightarrow> u32 \<Rightarrow> int \<Rightarrow> driver \<Rightarrow> driver" where
  "build_request buf sector is_write s =
     (let r1 = (blk_req s)\<lparr>req_sector := ucast sector\<rparr>;
          r2 = r1\<lparr>req_type := (if is_write \<noteq> 0 then VIRTIO_BLK_T_OUT else VIRTIO_BLK_T_IN)\<rparr>;
          r3 = (if is_write \<noteq> 0 then r2\<lparr>req_data := memcpy (req_data r2) buf SECTOR_SIZE\<rparr>
                else r2);
          vq = blk_request_vq s;
          d0 = \<lparr>desc_addr = ucast (blk_req_paddr s),
                desc_len = 4 * 2 + 8,
                desc_flags = VIRTQ_DESC_F_NEXT,
                desc_next = 1\<rparr>;
          d1 = \<lparr>desc_addr = ucast (blk_req_paddr s + offsetof_data),
                desc_len = of_nat SECTOR_SIZE,
                desc_flags = VIRTQ_DESC_F_NEXT OR (if is_write \<noteq> 0 then 0 else VIRTQ_DESC_F_WRITE),
                desc_next = 2\<rparr>;
          d2 = (descs vq ! 2)\<lparr>desc_addr := ucast (blk_req_paddr s + offsetof_status),
                desc_len := 1,
                desc_flags := VIRTQ_DESC_F_WRITE\<rparr>;
          vq1 = vq\<lparr>descs := (descs vq)[0 := d0, 1 := d1, 2 := d2]\<rparr>
      in virtq_kick 0 (s\<lparr>blk_req := r3, blk_request_vq := vq1\<rparr>))"

text \<open>
  \<open>read_write_disk\<close>. The caller's buffer is passed in and handed back: \<open>Inr (buf', s')\<close>
  is a call that returns, with the buffer's contents and the driver state at that
  point. \<open>Inl s'\<close> is a call that never returns: the device never completes the
  request and the busy-wait loop spins for ever, in the driver state \<open>s'\<close>.
\<close>

definition read_write_disk ::
  "dev_reply \<Rightarrow> u8 list \<Rightarrow> u32 \<Rightarrow> int \<Rightarrow> driver \<Rightarrow> driver + (u8 list \<times> driver)" where
  "read_write_disk dev buf sector is_write s =
     (if ucast sector \<ge> blk_capacity s div of_nat SECTOR_SIZE then
        Inr (buf, s\<lparr>console := console s @
               [Msg_sector_range sector (blk_capacity s div of_nat SECTOR_SIZE)]\<rparr>)
      else
        let s1 = build_request buf sector is_write s
        in case busy_wait (blk_request_vq s1) (rep_used dev) of
             None \<Rightarrow> Inl s1
           | Some vq \<Rightarrow>
               let r = (blk_req s1)\<lparr>req_status := rep_status dev,
                         req_data := (if is_write \<noteq> 0 then req_data (blk_req s1) else rep_data dev)\<rparr>;
                   s2 = s1\<lparr>blk_request_vq := vq, blk_req := r\<rparr>
               in if req_status (blk_req s2) \<noteq> 0 then
                    Inr (buf, s2\<lparr>console := console s2 @
                           [Msg_disk_failed sector (req_status (blk_req s2))]\<rparr>)
                  else if is_write = 0 then
                    Inr (memcpy buf (req_data (blk_req s2)) SECTOR_SIZE, s2)
                  else Inr (buf, s2))"

section \<open>Processes and the scheduler (process.c)\<close>

text \<open>
  Modelled from the spec: \<open>struct process\<close> and \<open>PROCS_MAX\<close> are declared in
  \<open>kernel.h\<close>, which is not among the sources. Section 3: a process has a \<open>pid\<close> (0 for
  the idle process, positive for user processes), a \<open>state\<close> among UNUSED, RUNNABLE and
  EXITED, a saved kernel stack pointer \<open>sp\<close>, the physical address of its root
  \<open>page_table\<close>, and a kernel stack; \<open>stack_top\<close> is the address
  \<open>&stack[sizeof(stack)]\<close>. The process table \<open>procs\<close> is a list whose length is
  \<open>PROCS_MAX\<close>; \<open>current_proc\<close> and \<open>idle_proc\<close>, pointers into the table in the
  source, are indices into it.
\<close>

datatype proc_state = PROC_UNUSED | PROC_RUNNABLE | PROC_EXITED

record process =
  pid :: nat
  state :: proc_state
  sp :: u32
  page_table :: u32
  stack_top :: u32

text \<open>
  Modelled from the spec: \<open>struct file\<close> (here \<open>file_entry\<close>) is declared in \<open>kernel.h\<close>. Section 3: a name
  of up to 100 bytes, NUL-terminated; \<open>data\<close> of a fixed capacity; \<open>size\<close>; an
  \<open>in_use\<close> flag. The capacity \<open>sizeof(file->data)\<close> is the length of \<open>file_data\<close>.
\<close>

record file_entry =
  file_in_use :: bool
  file_name :: "u8 list"
  file_data :: "u8 list"
  file_size :: u32

text \<open>
  The kernel state the scheduler and the trap path work on. \<open>mem\<close> is the memory the
  kernel reaches through the pointers a user process passes in \<open>a0\<close> and \<open>a1\<close>; the
  file table is a kernel object apart from it. \<open>printed\<close> is what went to the console
  and \<open>disk_files\<close> the file slots last written to the disk by \<open>fs_flush\<close>.
  \<open>kernel_sp\<close> is the stack pointer register at the point where \<open>yield\<close> calls
  \<open>switch_context\<close> (on the kernel stack of the current process, below the trap frame
  and the frames of the C functions on the way).
\<close>

record kernel =
  procs :: "process list"
  current_proc :: nat
  idle_proc :: nat
  files :: "file_entry list"
  mem :: "u32 \<Rightarrow> u8"
  printed :: "console_event list"
  disk_files :: "file_entry list"
  kernel_sp :: u32
  satp :: u32
  sscratch :: u32
  sepc :: u32
  scause :: u32
  stval :: u32

definition SATP_SV32 :: u32 where "SATP_SV32 = push_bit 31 1"

text \<open>
  The loop of \<open>yield\<close>: \<open>for (i = 0; i < PROCS_MAX; i++)\<close> over the slots
  \<open>(current_proc->pid + i) % PROCS_MAX\<close>, leaving at the first slot that is RUNNABLE
  with a positive pid. \<open>None\<close> when the loop runs to its end.
\<close>

function find_runnable :: "process list \<Rightarrow> nat \<Rightarrow> nat \<Rightarrow> nat option" where
  "find_runnable ps cur_pid i =
     (if i < length ps then
        (if state (ps ! ((cur_pid + i) mod length ps)) = PROC_RUNNABLE
            \<and> pid (ps ! ((cur_pid + i) mod length ps)) > 0
         then Some ((cur_pid + i) mod length ps)
         else find_runnable ps cur_pid (i + 1))
      else None)"
  by pat_completeness auto
termination
  by (relation "measure (\<lambda>(ps, cur_pid, i). length ps - i)") auto

declare find_runnable.simps [simp del]

text \<open>A slot the scheduler may choose: RUNNABLE, with a positive pid.\<close>

definition runnable_user :: "process \<Rightarrow> bool" where
  "runnable_user p = (state p = PROC_RUNNABLE \<and> pid p > 0)"

definition yield_next :: "kernel \<Rightarrow> nat" where
  "yield_next s =
     (case find_runnable (procs s) (pid (procs s ! current_proc s)) 0 of
        None \<Rightarrow> idle_proc s
      | Some idx \<Rightarrow> idx)"

text \<open>
  \<open>switch_context(&prev->sp, &next->sp)\<close>: the stack pointer goes down by 13 words,
  \<open>ra\<close> and \<open>s0\<close> to \<open>s11\<close> are stored there, the stack pointer is stored in
  \<open>prev->sp\<close> and loaded from \<open>next->sp\<close>, the 13 registers are loaded from the new
  stack and the stack pointer goes up by 13 words. The model keeps the two stack
  pointers; the 13 words on the stacks are not part of the state.
\<close>

definition switch_context :: "nat \<Rightarrow> nat \<Rightarrow> kernel \<Rightarrow> kernel" where
  "switch_context prev nxt s =
     (let s1 = s\<lparr>procs := (procs s)[prev := (procs s ! prev)\<lparr>sp := kernel_sp s - 13 * 4\<rparr>]\<rparr>
      in s1\<lparr>kernel_sp := sp (procs s1 ! nxt) + 13 * 4\<rparr>)"

text \<open>
  \<open>yield\<close>: the choice of the next process, the early return when it is the current
  one, the new address space and trap stack, and the switch.
\<close>

definition yield :: "kernel \<Rightarrow> kernel" where
  "yield s =
     (let nxt = yield_next s
      in if nxt = current_proc s then s
         else
           (let s1 = s\<lparr>satp := SATP_SV32 OR (page_table (procs s ! nxt) div PAGE_SIZE),
                        sscratch := stack_top (procs s ! nxt)\<rparr>;
                prev = current_proc s1;
                s2 = s1\<lparr>current_proc := nxt\<rparr>
            in switch_context prev nxt s2))"

section \<open>The trap path (trap.c)\<close>

text \<open>
  The trap frame holds the 31 words \<open>kernel_entry\<close> saves, in this order. A frame, and
  the register file of the trapping process, is a function from these names to words.
\<close>

datatype reg =
    RA | GP | TP | T0 | T1 | T2 | T3 | T4 | T5 | T6
  | A0 | A1 | A2 | A3 | A4 | A5 | A6 | A7
  | S0 | S1 | S2 | S3 | S4 | S5 | S6 | S7 | S8 | S9 | S10 | S11
  | SP

type_synonym trap_frame = "reg \<Rightarrow> u32"

text \<open>
  Modelled from the spec: the system call numbers and \<open>SCAUSE_ECALL\<close> are macros of
  \<open>common.h\<close> and \<open>kernel.h\<close>; section 4.6 gives the numbers 1 to 5 and the cause 8.
\<close>

definition SYS_PUTCHAR :: u32 where "SYS_PUTCHAR = 1"
definition SYS_GETCHAR :: u32 where "SYS_GETCHAR = 2"
definition SYS_READFILE :: u32 where "SYS_READFILE = 3"
definition SYS_WRITEFILE :: u32 where "SYS_WRITEFILE = 4"
definition SYS_EXIT :: u32 where "SYS_EXIT = 5"
definition SCAUSE_ECALL :: u32 where "SCAUSE_ECALL = 8"

lemmas sys_consts =
  SYS_PUTCHAR_def SYS_GETCHAR_def SYS_READFILE_def SYS_WRITEFILE_def SYS_EXIT_def
  SCAUSE_ECALL_def

subsection \<open>Files\<close>

text \<open>
  Modelled from the spec: \<open>fs_lookup\<close> and \<open>fs_flush\<close> live in \<open>fs.c\<close>, which is not
  among the sources. Section 4.4: \<open>fs_lookup\<close> is a linear scan of the file table that
  compares names as NUL-terminated strings and returns the slot or NULL; \<open>fs_flush\<close>
  writes every in-use slot to the disk and leaves the file table as it is (of the disk
  image the model keeps the slots written, not their TAR encoding).
  \<open>strcmp_eq m p cs\<close> holds when the string at address \<open>p\<close> is \<open>cs\<close> followed by NUL.
\<close>

fun strcmp_eq :: "(u32 \<Rightarrow> u8) \<Rightarrow> u32 \<Rightarrow> u8 list \<Rightarrow> bool" where
  "strcmp_eq m p [] = (m p = 0)"
| "strcmp_eq m p (c # cs) = (m p = c \<and> strcmp_eq m (p + 1) cs)"

definition c_string :: "u8 list \<Rightarrow> u8 list" where
  "c_string cs = takeWhile (\<lambda>c. c \<noteq> 0) cs"

fun fs_lookup_from :: "nat \<Rightarrow> (u32 \<Rightarrow> u8) \<Rightarrow> u32 \<Rightarrow> file_entry list \<Rightarrow> nat option" where
  "fs_lookup_from i m filename [] = None"
| "fs_lookup_from i m filename (f # fs) =
     (if strcmp_eq m filename (c_string (file_name f)) then Some i
      else fs_lookup_from (i + 1) m filename fs)"

definition fs_lookup :: "u32 \<Rightarrow> kernel \<Rightarrow> nat option" where
  "fs_lookup filename s = fs_lookup_from 0 (mem s) filename (files s)"

definition fs_flush :: "kernel \<Rightarrow> kernel" where
  "fs_flush s = s\<lparr>disk_files := filter file_in_use (files s)\<rparr>"

text \<open>
  The two \<open>memcpy\<close> calls of the file system calls, between a file slot and the memory
  at a user pointer. The slot holds \<open>length (file_data file)\<close> bytes. A length within
  the slot copies that many bytes. A length beyond it runs past the slot: the outcome
  is \<open>OutOfBounds\<close> with that length, and nothing after the call is executed.
\<close>

definition read_mem :: "(u32 \<Rightarrow> u8) \<Rightarrow> u32 \<Rightarrow> nat \<Rightarrow> u8 list" where
  "read_mem m p n = map (\<lambda>i. m (p + of_nat i)) [0..<n]"

definition write_mem :: "(u32 \<Rightarrow> u8) \<Rightarrow> u32 \<Rightarrow> u8 list \<Rightarrow> (u32 \<Rightarrow> u8)" where
  "write_mem m p bs = (\<lambda>a. if unat (a - p) < length bs then bs ! unat (a - p) else m a)"

definition memcpy_to_file ::
  "u8 list \<Rightarrow> (u32 \<Rightarrow> u8) \<Rightarrow> u32 \<Rightarrow> nat \<Rightarrow> error + u8 list" where
  "memcpy_to_file dst m buf n =
     (if n \<le> length dst then Inr (memcpy dst (read_mem m buf n) n)
      else Inl (OutOfBounds n))"

definition memcpy_from_file ::
  "(u32 \<Rightarrow> u8) \<Rightarrow> u32 \<Rightarrow> u8 list \<Rightarrow> nat \<Rightarrow> error + (u32 \<Rightarrow> u8)" where
  "memcpy_from_file m buf src n =
     (if n \<le> length src then Inr (write_mem m buf (take n src))
      else Inl (OutOfBounds n))"

subsection \<open>System calls\<close>

text \<open>
  The value of the local \<open>len\<close> after the clamp of lines 36 and 45 to 46:
  \<open>int len = f->a2; if (len > (int) sizeof(file->data)) len = file->size;\<close>.
  The comparison is one of signed 32-bit integers.
\<close>

definition clamp_len :: "file_entry \<Rightarrow> u32 \<Rightarrow> u32" where
  "clamp_len file a2 =
     (if sint a2 > int (length (file_data file)) then file_size file else a2)"

text \<open>The body of the cases \<open>SYS_READFILE\<close> and \<open>SYS_WRITEFILE\<close>.\<close>

definition sys_file :: "trap_frame \<Rightarrow> kernel \<Rightarrow> error + (trap_frame \<times> kernel)" where
  "sys_file f s =
     (let filename = f A0; buf = f A1
      in case fs_lookup filename s of
           None \<Rightarrow>
             Inr (f(A0 := - 1), s\<lparr>printed := printed s @ [Msg_file_not_found filename]\<rparr>)
         | Some i \<Rightarrow>
             (let file = files s ! i;
                  len = clamp_len file (f A2)
              in if f A3 = SYS_WRITEFILE then
                   (case memcpy_to_file (file_data file) (mem s) buf (unat len) of
                      Inl e \<Rightarrow> Inl e
                    | Inr data \<Rightarrow>
                        (let file1 = file\<lparr>file_data := data\<rparr>;
                             file2 = file1\<lparr>file_size := len\<rparr>;
                             s1 = s\<lparr>files := (files s)[i := file2]\<rparr>
                         in Inr (f(A0 := len), fs_flush s1)))
                 else
                   (case memcpy_from_file (mem s) buf (file_data file) (unat len) of
                      Inl e \<Rightarrow> Inl e
                    | Inr m \<Rightarrow> Inr (f(A0 := len), s\<lparr>mem := m\<rparr>))))"

text \<open>
  The environment of a system call: the values the SBI \<open>getchar\<close> returns to the
  successive polls of \<open>SYS_GETCHAR\<close> (a \<open>long\<close>, negative when no character is there),
  and what the other processes do to the kernel state between a \<open>yield\<close> of the caller
  and its return. When the polls run out without a character the console stays silent
  for ever and the loop does not exit.
\<close>

record sys_env =
  getchar_results :: "u32 list"
  resume :: "kernel \<Rightarrow> kernel"

fun sys_getchar :: "(kernel \<Rightarrow> kernel) \<Rightarrow> u32 list \<Rightarrow> trap_frame \<Rightarrow> kernel
    \<Rightarrow> error + (trap_frame \<times> kernel)" where
  "sys_getchar others [] f s = Inl NeverReturns"
| "sys_getchar others (ch # chs) f s =
     (if sint ch \<ge> 0 then Inr (f(A0 := ch), s)
      else sys_getchar others chs f (others (yield s)))"

text \<open>
  \<open>SYS_EXIT\<close>: the process is marked EXITED and yields. It is never chosen again, so
  either \<open>yield\<close> switches away for good, or it returns at once and the kernel panics.
\<close>

definition sys_exit :: "kernel \<Rightarrow> error + (trap_frame \<times> kernel)" where
  "sys_exit s =
     (let cur = current_proc s;
          s1 = s\<lparr>printed := printed s @ [Msg_process_exited (pid (procs s ! cur))]\<rparr>;
          s2 = s1\<lparr>procs := (procs s1)[cur := (procs s1 ! cur)\<lparr>state := PROC_EXITED\<rparr>]\<rparr>
      in if yield_next s2 = current_proc s2 then Inl (Panic ''unreachable'')
         else Inl NeverReturns)"

definition handle_syscall :: "sys_env \<Rightarrow> trap_frame \<Rightarrow> kernel \<Rightarrow> error + (trap_frame \<times> kernel)" where
  "handle_syscall env f s =
     (if f A3 = SYS_PUTCHAR then
        Inr (f, s\<lparr>printed := printed s @ [PutChar (ucast (f A0))]\<rparr>)
      else if f A3 = SYS_GETCHAR then
        sys_getchar (resume env) (getchar_results env) f s
      else if f A3 = SYS_READFILE \<or> f A3 = SYS_WRITEFILE then
        sys_file f s
      else if f A3 = SYS_EXIT then
        sys_exit s
      else Inl (Panic ''unexpected syscall''))"

definition handle_trap :: "sys_env \<Rightarrow> trap_frame \<Rightarrow> kernel \<Rightarrow> error + (trap_frame \<times> kernel)" where
  "handle_trap env f s =
     (let user_pc = sepc s
      in if scause s = SCAUSE_ECALL then
           (case handle_syscall env f s of
              Inl e \<Rightarrow> Inl e
            | Inr (f1, s1) \<Rightarrow> Inr (f1, s1\<lparr>sepc := user_pc + 4\<rparr>))
         else Inl (Panic ''unexpected trap''))"

text \<open>
  \<open>kernel_entry\<close>, from the trap to \<open>sret\<close>. \<open>regs\<close> are the registers of the trapping
  process. \<open>csrrw\<close> swaps \<open>sp\<close> with \<open>sscratch\<close>; the 30 registers other than \<open>sp\<close>
  are stored in the frame, then the user's \<open>sp\<close> (by now in \<open>sscratch\<close>);
  \<open>sscratch\<close> is set back to the top of the kernel stack; \<open>handle_trap\<close> runs on the
  frame; all 31 registers are loaded from the frame and \<open>sret\<close> continues at \<open>sepc\<close>.
  The result is the register file and the program counter after \<open>sret\<close>.
\<close>

definition kernel_entry ::
  "sys_env \<Rightarrow> (reg \<Rightarrow> u32) \<Rightarrow> kernel \<Rightarrow> error + ((reg \<Rightarrow> u32) \<times> u32 \<times> kernel)" where
  "kernel_entry env regs s =
     (let ksp = sscratch s;
          s1 = s\<lparr>sscratch := regs SP\<rparr>;
          frame_sp = ksp - 4 * 31;
          f = regs(SP := sscratch s1);
          s2 = s1\<lparr>sscratch := frame_sp + 4 * 31\<rparr>
      in case handle_trap env f s2 of
           Inl e \<Rightarrow> Inl e
         | Inr (f1, s3) \<Rightarrow> Inr (f1, sepc s3, s3))"

section \<open>Notions used in the statements\<close>

text \<open>
  The descriptor chain and its publication, as a relation between the driver state
  before a request and a later one.
\<close>

definition chain_published :: "int \<Rightarrow> driver \<Rightarrow> driver \<Rightarrow> bool" where
  "chain_published is_write s s' =
     (let vq = blk_request_vq s; vq' = blk_request_vq s' in
      descs vq' ! 0 = \<lparr>desc_addr = ucast (blk_req_paddr s), desc_len = 16,
                        desc_flags = VIRTQ_DESC_F_NEXT, desc_next = 1\<rparr> \<and>
      descs vq' ! 1 = \<lparr>desc_addr = ucast (blk_req_paddr s + offsetof_data), desc_len = 512,
                        desc_flags = (if is_write = 0 then VIRTQ_DESC_F_NEXT OR VIRTQ_DESC_F_WRITE
                                      else VIRTQ_DESC_F_NEXT),
                        desc_next = 2\<rparr> \<and>
      desc_addr (descs vq' ! 2) = ucast (blk_req_paddr s + offsetof_status) \<and>
      desc_len (descs vq' ! 2) = 1 \<and>
      desc_flags (descs vq' ! 2) = VIRTQ_DESC_F_WRITE \<and>
      avail_ring vq' ! (unat (avail_index vq) mod VIRTQ_ENTRY_NUM) = 0 \<and>
      avail_index vq' = avail_index vq + 1 \<and>
      mmio_writes s' = mmio_writes s @ [(VIRTIO_REG_QUEUE_NOTIFY, queue_index vq)] \<and>
      last_used_index vq' = last_used_index vq + 1)"

text \<open>
  The order in which the loop of \<open>yield\<close> visits the slots, for a current pid \<open>c\<close> and
  a table of \<open>n\<close> slots.
\<close>

definition scan_order :: "nat \<Rightarrow> nat \<Rightarrow> nat list" where
  "scan_order c n = map (\<lambda>i. (c + i) mod n) [0..<n]"

text \<open>
  The choice of the next process as section 4.5 of the specification words it: the
  slots \<open>(current_proc->pid + i) % PROCS_MAX\<close> for \<open>i = 1 .. PROCS_MAX - 1\<close>, the first
  RUNNABLE one with a positive pid, the idle process if there is none. It is compared
  with \<open>yield_next\<close>, the choice the source makes.
\<close>

definition spec_yield_next :: "kernel \<Rightarrow> nat" where
  "spec_yield_next s =
     (case List.find (\<lambda>idx. runnable_user (procs s ! idx))
             (map (\<lambda>i. (pid (procs s ! current_proc s) + i) mod length (procs s))
                [1..<length (procs s)]) of
        None \<Rightarrow> idle_proc s
      | Some idx \<Rightarrow> idx)"

text \<open>
  Two processes in the slots \<open>a\<close> and \<open>b\<close>, with the pids \<open>create_process\<close> gives to
  these slots (slot index plus one), both RUNNABLE, and no other slot that the
  scheduler may choose.
\<close>

definition only_runnable :: "nat \<Rightarrow> nat \<Rightarrow> kernel \<Rightarrow> bool" where
  "only_runnable a b s =
     (a < length (procs s) \<and> b < length (procs s) \<and> a \<noteq> b \<and>
      pid (procs s ! a) = a + 1 \<and> pid (procs s ! b) = b + 1 \<and>
      state (procs s ! a) = PROC_RUNNABLE \<and> state (procs s ! b) = PROC_RUNNABLE \<and>
      (\<forall>k < length (procs s). k \<noteq> a \<and> k \<noteq> b \<longrightarrow> \<not> runnable_user (procs s ! k)))"

text \<open>
  The value a system call leaves in \<open>a0\<close>, if it returns, and one system call after
  another.
\<close>

definition result_a0 :: "error + (trap_frame \<times> kernel) \<Rightarrow> u32 option" where
  "result_a0 r = (case r of Inl e \<Rightarrow> None | Inr (f, s) \<Rightarrow> Some (f A0))"

definition syscall_then ::
  "sys_env \<Rightarrow> trap_frame \<Rightarrow> trap_frame \<Rightarrow> kernel \<Rightarrow> error + (trap_frame \<times> kernel)" where
  "syscall_then env f1 f2 s =
     (case handle_syscall env f1 s of
        Inl e \<Rightarrow> Inl e
      | Inr (f, s1) \<Rightarrow> handle_syscall env f2 s1)"

section \<open>Concrete states\<close>

text \<open>
  A legacy virtio-blk device of 64 sectors before \<open>virtio_blk_init\<close>, with free RAM
  from \<open>0x80221000\<close>, and the driver once it is initialised. Three devices: one that
  completes a request with status 0, one that completes it with status 1, and one that
  never completes it.
\<close>

definition fresh_driver :: driver where
  "fresh_driver =
     \<lparr>mmio = (\<lambda>_. 0)(VIRTIO_REG_MAGIC := 0x74726976, VIRTIO_REG_VERSION := 1,
                       VIRTIO_REG_DEVICE_ID := 2, VIRTIO_REG_DEVICE_CONFIG := 64),
      mmio_writes = [],
      next_paddr = 0x80221000, free_ram_end = 0x84221000,
      blk_request_vq = zero_virtq, blk_req = zero_blk_req, blk_req_paddr = 0,
      blk_capacity = 0, console = []\<rparr>"

definition ready_driver :: driver where
  "ready_driver =
     \<lparr>mmio = (\<lambda>_. 0)(VIRTIO_REG_MAGIC := 0x74726976, VIRTIO_REG_VERSION := 1,
                       VIRTIO_REG_DEVICE_ID := 2, VIRTIO_REG_DEVICE_CONFIG := 64,
                       VIRTIO_REG_DEVICE_STATUS := 4),
      mmio_writes = [],
      next_paddr = 0x80224000, free_ram_end = 0x84221000,
      blk_request_vq = zero_virtq, blk_req = zero_blk_req, blk_req_paddr = 0x80223000,
      blk_capacity = 32768, console = []\<rparr>"

definition good_reply :: dev_reply where
  "good_reply = \<lparr>rep_used = [0, 0, 1], rep_data = replicate 512 7, rep_status = 0\<rparr>"

definition failed_reply :: dev_reply where
  "failed_reply = \<lparr>rep_used = [0, 1], rep_data = replicate 512 7, rep_status = 1\<rparr>"

definition silent_reply :: dev_reply where
  "silent_reply = \<lparr>rep_used = [0, 0, 0], rep_data = [], rep_status = 0\<rparr>"

text \<open>
  The kernel after boot: the idle process in slot 0 with pid 0, the shell in slot 1
  with pid 2, one file \<open>hello.txt\<close> in a slot of 1024 bytes, and, in the shell's
  memory, the string \<open>hello.txt\<close> at \<open>0x1000100\<close> and the bytes \<open>world\<close> at
  \<open>0x1000200\<close>. The shell is running and has trapped with an \<open>ecall\<close> at \<open>0x1000040\<close>.
\<close>

definition hello_txt :: "u8 list" where
  "hello_txt = [104, 101, 108, 108, 111, 46, 116, 120, 116]"

definition world :: "u8 list" where
  "world = [119, 111, 114, 108, 100]"

definition boot_kernel :: kernel where
  "boot_kernel =
     \<lparr>procs =
        [\<lparr>pid = 0, state = PROC_RUNNABLE, sp = 0x80300fcc, page_table = 0x80225000,
          stack_top = 0x80301000\<rparr>,
         \<lparr>pid = 2, state = PROC_RUNNABLE, sp = 0x80302fcc, page_table = 0x80226000,
          stack_top = 0x80303000\<rparr>,
         \<lparr>pid = 0, state = PROC_UNUSED, sp = 0, page_table = 0, stack_top = 0x80305000\<rparr>,
         \<lparr>pid = 0, state = PROC_UNUSED, sp = 0, page_table = 0, stack_top = 0x80307000\<rparr>],
      current_proc = 1, idle_proc = 0,
      files = [\<lparr>file_in_use = True, file_name = hello_txt @ replicate 91 0,
                file_data = replicate 1024 0, file_size = 0\<rparr>],
      mem = write_mem (write_mem (\<lambda>_. 0) 0x1000100 (hello_txt @ [0])) 0x1000200 world,
      printed = [], disk_files = [], kernel_sp = 0x80302f00,
      satp = 0x80080226, sscratch = 0x80303000, sepc = 0x1000040, scause = 8, stval = 0\<rparr>"

text \<open>
  A process table with process A (pid 1) in slot 0 and process B (pid 2) in slot 1,
  both RUNNABLE, a free slot, and a process with pid 0 as the idle process; A is
  running.
\<close>

definition two_procs :: kernel where
  "two_procs =
     \<lparr>procs =
        [\<lparr>pid = 1, state = PROC_RUNNABLE, sp = 0x80300fcc, page_table = 0x80225000,
          stack_top = 0x80301000\<rparr>,
         \<lparr>pid = 2, state = PROC_RUNNABLE, sp = 0x80302fcc, page_table = 0x80226000,
          stack_top = 0x80303000\<rparr>,
         \<lparr>pid = 0, state = PROC_UNUSED, sp = 0, page_table = 0, stack_top = 0x80305000\<rparr>,
         \<lparr>pid = 0, state = PROC_RUNNABLE, sp = 0x80306fcc, page_table = 0x80227000,
          stack_top = 0x80307000\<rparr>],
      current_proc = 0, idle_proc = 3,
      files = [], mem = (\<lambda>_. 0), printed = [], disk_files = [], kernel_sp = 0x80300f00,
      satp = 0x80080225, sscratch = 0x80301000, sepc = 0x1000040, scause = 8, stval = 0\<rparr>"

text \<open>
  A console with no input and no other process touching the state, and the registers
  of a process at an \<open>ecall\<close> with the given \<open>a0\<close> to \<open>a3\<close>.
\<close>

definition quiet_env :: sys_env where
  "quiet_env = \<lparr>getchar_results = [], resume = (\<lambda>s. s)\<rparr>"

definition user_regs :: "u32 \<Rightarrow> u32 \<Rightarrow> u32 \<Rightarrow> u32 \<Rightarrow> reg \<Rightarrow> u32" where
  "user_regs a0 a1 a2 a3 = (\<lambda>_. 0)(A0 := a0, A1 := a1, A2 := a2, A3 := a3, SP := 0x1010000)"

section \<open>Properties of the virtio-blk driver\<close>

subsection \<open>Initialisation\<close>

lemma virtq_init_pfn:
  "virtq_init vq_size index s = Inr ((virtq_paddr, vq), s') \<Longrightarrow>
   mmio s' VIRTIO_REG_QUEUE_PFN = virtq_paddr \<and>
   mmio_writes s' = mmio_writes s @
     [(VIRTIO_REG_QUEUE_SEL, index), (VIRTIO_REG_QUEUE_NUM, of_nat VIRTQ_ENTRY_NUM),
      (VIRTIO_REG_QUEUE_ALIGN, 0), (VIRTIO_REG_QUEUE_PFN, virtq_paddr)]"
  by (auto simp: virtq_init_def alloc_pages_def Let_def virtio_reg_write32_def
      split: if_splits)

text \<open>
  C2. The claim: the value written to \<open>QUEUE_PFN\<close> is the virtqueue's page frame
  number, its physical address divided by \<open>PAGE_SIZE\<close>. The code writes the physical
  address itself: for the queue allocated at \<open>0x80221000\<close> the writes are
  \<open>QUEUE_SEL = 0\<close>, \<open>QUEUE_NUM = 16\<close>, \<open>QUEUE_ALIGN = 0\<close> and then
  \<open>QUEUE_PFN = 0x80221000\<close>, where the page frame number is \<open>0x80221\<close>.
\<close>

theorem virtq_init_writes_address_to_pfn:
  "map_sum id (\<lambda>((virtq_paddr, vq), s'). (virtq_paddr, virtq_paddr div PAGE_SIZE, mmio_writes s'))
     (virtq_init 8192 0 fresh_driver) =
   Inr (0x80221000, 0x80221,
        [(VIRTIO_REG_QUEUE_SEL, 0), (VIRTIO_REG_QUEUE_NUM, 16),
         (VIRTIO_REG_QUEUE_ALIGN, 0), (VIRTIO_REG_QUEUE_PFN, 0x80221000)])"
  by (simp add: virtq_init_def alloc_pages_def Let_def virtio_reg_write32_def
      fresh_driver_def align_up_def virtio_consts)

lemma virtio_blk_init_status:
  "virtio_blk_init vq_size req_size s = Inr s' \<Longrightarrow>
   mmio s' VIRTIO_REG_DEVICE_STATUS = VIRTIO_STATUS_DRIVER_OK"
  by (auto simp: virtio_blk_init_def virtq_init_def alloc_pages_def
      Let_def virtio_reg_write32_def virtio_reg_fetch_and_or32_def virtio_reg_read32_def
      split: if_splits sum.splits prod.splits)

text \<open>
  C3. The claim: \<open>DRIVER_OK\<close> is OR-ed into the status register, which then holds
  \<open>ACK | DRIVER | FEAT_OK | DRIVER_OK = 15\<close>. The last step of \<open>virtio_blk_init\<close> is a
  plain \<open>virtio_reg_write32\<close>, where the three steps before it use
  \<open>virtio_reg_fetch_and_or32\<close>: the values written to the status register are 0, 1, 3,
  11 and then 4, and after initialisation the register holds 4.
\<close>

theorem virtio_blk_init_overwrites_status:
  "map_sum id
     (\<lambda>s'. (mmio s' VIRTIO_REG_DEVICE_STATUS,
            map snd (filter (\<lambda>w. fst w = VIRTIO_REG_DEVICE_STATUS) (mmio_writes s'))))
     (virtio_blk_init 8192 529 fresh_driver) =
   Inr (4, [0, 1, 3, 11, 4])"
  by (simp add: virtio_blk_init_def virtq_init_def alloc_pages_def
      Let_def virtio_reg_write32_def virtio_reg_fetch_and_or32_def virtio_reg_read32_def
      virtio_reg_read64_def fresh_driver_def align_up_def virtio_consts)

subsection \<open>Sector requests\<close>

lemma unat_ucast_u32_u64: "unat (ucast (w :: u32) :: u64) = unat w"
proof -
  have "unat w < 2 ^ 32" using unsigned_less [of w] by simp
  then have "unat w < 2 ^ 64" by simp
  then show ?thesis by (simp add: unsigned_ucast_eq take_bit_nat_eq_self)
qed

text \<open>
  The source tests \<open>sector >= blk_capacity / SECTOR_SIZE\<close>; a sector with
  \<open>sector * SECTOR_SIZE >= capacity\<close> passes that test.
\<close>

lemma sector_out_of_range:
  assumes "unat (blk_capacity s) \<le> unat sector * SECTOR_SIZE"
  shows "(ucast (sector :: u32) :: u64) \<ge> blk_capacity s div of_nat SECTOR_SIZE"
proof -
  have "unat (blk_capacity s) div 512 \<le> unat sector"
    using assms by (simp add: SECTOR_SIZE_def)
  then show ?thesis
    by (simp add: word_le_nat_alt unat_div SECTOR_SIZE_def unat_ucast_u32_u64)
qed

lemma busy_wait_Some:
  "busy_wait vq us = Some vq' \<Longrightarrow> \<exists>u. vq' = vq\<lparr>used_index := u\<rparr>"
  by (induction us) (auto split: if_splits)

lemma build_request_console: "console (build_request buf sector w s) = console s"
  by (simp add: build_request_def virtq_kick_def Let_def virtio_reg_write32_def)

text \<open>
  C7. A call of \<open>read_write_disk\<close> that fails returns normally and hands the caller's
  buffer back as it was; nothing in the result tells the caller of the failure. When
  the sector is out of range (\<open>sector * SECTOR_SIZE >= capacity\<close>) the only effect is one
  line on the console: no request is built and no register is written. When the device
  completes the request with a non-zero status byte, the effect besides the request
  itself is one more line on the console.
\<close>

theorem read_write_disk_failure_keeps_buffer:
  "(unat (blk_capacity s) \<le> unat sector * SECTOR_SIZE \<longrightarrow>
      read_write_disk dev buf sector w s =
        Inr (buf, s\<lparr>console := console s @
               [Msg_sector_range sector (blk_capacity s div of_nat SECTOR_SIZE)]\<rparr>)) \<and>
   (busy_wait (blk_request_vq (build_request buf sector w s)) (rep_used dev) \<noteq> None \<and>
    rep_status dev \<noteq> 0 \<longrightarrow>
      (\<exists>s' m. read_write_disk dev buf sector w s = Inr (buf, s') \<and>
                console s' = console s @ [m]))"
proof (intro conjI impI)
  assume "unat (blk_capacity s) \<le> unat sector * SECTOR_SIZE"
  then have "(ucast sector :: u64) \<ge> blk_capacity s div of_nat SECTOR_SIZE"
    by (rule sector_out_of_range)
  then show "read_write_disk dev buf sector w s =
        Inr (buf, s\<lparr>console := console s @
               [Msg_sector_range sector (blk_capacity s div of_nat SECTOR_SIZE)]\<rparr>)"
    by (simp add: read_write_disk_def)
next
  assume a: "busy_wait (blk_request_vq (build_request buf sector w s)) (rep_used dev) \<noteq> None \<and>
    rep_status dev \<noteq> 0"
  then obtain vq
    where vq: "busy_wait (blk_request_vq (build_request buf sector w s)) (rep_used dev) = Some vq"
    by blast
  show "\<exists>s' m. read_write_disk dev buf sector w s = Inr (buf, s') \<and>
                console s' = console s @ [m]"
  proof (cases "(ucast sector :: u64) \<ge> blk_capacity s div of_nat SECTOR_SIZE")
    case True
    then show ?thesis by (simp add: read_write_disk_def)
  next
    case False
    then show ?thesis using a vq
      by (simp add: read_write_disk_def Let_def build_request_console)
  qed
qed

theorem read_write_disk_failure_keeps_buffer_witness:
  "unat (blk_capacity ready_driver) \<le> unat (64 :: u32) * SECTOR_SIZE \<and>
   read_write_disk good_reply (replicate 512 1) 64 0 ready_driver =
     Inr (replicate 512 1, ready_driver\<lparr>console := [Msg_sector_range 64 64]\<rparr>) \<and>
   busy_wait (blk_request_vq (build_request (replicate 512 1) 63 0 ready_driver))
     (rep_used failed_reply) \<noteq> None \<and>
   rep_status failed_reply \<noteq> 0 \<and>
   (\<exists>s' m. read_write_disk failed_reply (replicate 512 1) 63 0 ready_driver
              = Inr (replicate 512 1, s') \<and> console s' = console ready_driver @ [m])"
proof -
  have a: "unat (blk_capacity ready_driver) \<le> unat (64 :: u32) * SECTOR_SIZE"
    by (simp add: ready_driver_def SECTOR_SIZE_def)
  have b: "busy_wait (blk_request_vq (build_request (replicate 512 1) 63 0 ready_driver))
             (rep_used failed_reply) \<noteq> None"
    by (simp add: build_request_def virtq_kick_def Let_def virtio_reg_write32_def
        ready_driver_def failed_reply_def zero_virtq_def virtq_is_busy_def)
  have c: "rep_status failed_reply \<noteq> 0"
    by (simp add: failed_reply_def)
  have d: "console ready_driver = []"
    "blk_capacity ready_driver div of_nat SECTOR_SIZE = 64"
    by (simp_all add: ready_driver_def SECTOR_SIZE_def)
  have "read_write_disk good_reply (replicate 512 1) 64 0 ready_driver =
     Inr (replicate 512 1, ready_driver\<lparr>console := console ready_driver @
       [Msg_sector_range 64 (blk_capacity ready_driver div of_nat SECTOR_SIZE)]\<rparr>)"
    using a
      read_write_disk_failure_keeps_buffer
        [where s = ready_driver and sector = 64 and buf = "replicate 512 1" and w = 0
           and dev = good_reply]
    by blast
  moreover have "\<exists>s' m. read_write_disk failed_reply (replicate 512 1) 63 0 ready_driver
              = Inr (replicate 512 1, s') \<and> console s' = console ready_driver @ [m]"
    using b c
      read_write_disk_failure_keeps_buffer
        [where s = ready_driver and sector = 63 and buf = "replicate 512 1" and w = 0
           and dev = failed_reply]
    by blast
  ultimately show ?thesis using a b c by (simp add: d)
qed

lemma chain_published_build_request:
  assumes "length (descs (blk_request_vq s)) = VIRTQ_ENTRY_NUM"
      and "length (avail_ring (blk_request_vq s)) = VIRTQ_ENTRY_NUM"
  shows "chain_published w s (build_request buf sector w s)"
  using assms
  by (simp add: chain_published_def build_request_def virtq_kick_def Let_def
        virtio_reg_write32_def VIRTQ_ENTRY_NUM_def SECTOR_SIZE_def)

lemma chain_published_completion:
  "chain_published w s
     (s1\<lparr>blk_request_vq := (blk_request_vq s1)\<lparr>used_index := u\<rparr>, blk_req := r\<rparr>)
   = chain_published w s s1"
  "chain_published w s
     (s1\<lparr>blk_request_vq := (blk_request_vq s1)\<lparr>used_index := u\<rparr>, blk_req := r,
         console := c\<rparr>)
   = chain_published w s s1"
  by (simp_all add: chain_published_def Let_def)

lemma busy_wait_completes:
  "(busy_wait vq us \<noteq> None) = (last_used_index vq \<in> set us)"
  by (induction us) (auto simp: virtq_is_busy_def)

lemma build_request_last_used:
  "last_used_index (blk_request_vq (build_request buf sector w s))
     = last_used_index (blk_request_vq s) + 1"
  by (simp add: build_request_def virtq_kick_def Let_def virtio_reg_write32_def)

text \<open>
  C8. Every in-range call of \<open>read_write_disk\<close>, on a queue of \<open>VIRTQ_ENTRY_NUM\<close>
  descriptors and ring entries, builds the chain in slots 0, 1 and 2 (header, 16 bytes,
  NEXT, next 1; data, 512 bytes, NEXT and, exactly for a read, WRITE, next 2; status
  byte, 1 byte, WRITE), stores head index 0 in \<open>avail.ring[avail.index % N]\<close>,
  increments \<open>avail.index\<close> by one, writes the queue index to \<open>QUEUE_NOTIFY\<close> and
  increments \<open>last_used_index\<close> by one. The call returns exactly when the device shows
  the awaited index, the old \<open>last_used_index\<close> plus one, in \<open>used.index\<close>; the chain
  is published in the state it returns and, when the device never completes, in the
  state in which the call spins.
\<close>

theorem read_write_disk_descriptor_chain:
  assumes "\<not> ucast sector \<ge> blk_capacity s div of_nat SECTOR_SIZE"
      and "length (descs (blk_request_vq s)) = VIRTQ_ENTRY_NUM"
      and "length (avail_ring (blk_request_vq s)) = VIRTQ_ENTRY_NUM"
  shows "(last_used_index (blk_request_vq s) + 1 \<in> set (rep_used dev) \<longrightarrow>
            (\<exists>buf' s'. read_write_disk dev buf sector w s = Inr (buf', s') \<and>
                        chain_published w s s')) \<and>
         (last_used_index (blk_request_vq s) + 1 \<notin> set (rep_used dev) \<longrightarrow>
            (\<exists>s'. read_write_disk dev buf sector w s = Inl s' \<and> chain_published w s s'))"
proof (intro conjI impI)
  assume "last_used_index (blk_request_vq s) + 1 \<in> set (rep_used dev)"
  then have "busy_wait (blk_request_vq (build_request buf sector w s)) (rep_used dev) \<noteq> None"
    by (subst busy_wait_completes) (simp add: build_request_last_used)
  then obtain vq
    where "busy_wait (blk_request_vq (build_request buf sector w s)) (rep_used dev) = Some vq"
    by blast
  moreover from this obtain u
    where "vq = (blk_request_vq (build_request buf sector w s))\<lparr>used_index := u\<rparr>"
    using busy_wait_Some by blast
  ultimately show "\<exists>buf' s'. read_write_disk dev buf sector w s = Inr (buf', s') \<and>
                        chain_published w s s'"
    using assms(1)
    by (simp add: read_write_disk_def Let_def chain_published_completion
        chain_published_build_request [OF assms(2,3)])
next
  assume "last_used_index (blk_request_vq s) + 1 \<notin> set (rep_used dev)"
  then have "busy_wait (blk_request_vq (build_request buf sector w s)) (rep_used dev) = None"
    using busy_wait_completes [of "blk_request_vq (build_request buf sector w s)" "rep_used dev"]
    by (simp add: build_request_last_used)
  then show "\<exists>s'. read_write_disk dev buf sector w s = Inl s' \<and> chain_published w s s'"
    using assms(1)
    by (simp add: read_write_disk_def Let_def chain_published_build_request [OF assms(2,3)])
qed

theorem read_write_disk_descriptor_chain_witness:
  "\<not> ucast (3 :: u32) \<ge> blk_capacity ready_driver div of_nat SECTOR_SIZE \<and>
   length (descs (blk_request_vq ready_driver)) = VIRTQ_ENTRY_NUM \<and>
   length (avail_ring (blk_request_vq ready_driver)) = VIRTQ_ENTRY_NUM \<and>
   last_used_index (blk_request_vq ready_driver) + 1 \<in> set (rep_used good_reply) \<and>
   (\<exists>buf' s'. read_write_disk good_reply (replicate 512 1) 3 0 ready_driver = Inr (buf', s') \<and>
               chain_published 0 ready_driver s') \<and>
   last_used_index (blk_request_vq ready_driver) + 1 \<notin> set (rep_used silent_reply) \<and>
   (\<exists>s'. read_write_disk silent_reply (replicate 512 1) 3 1 ready_driver = Inl s' \<and>
          chain_published 1 ready_driver s')"
proof -
  have a: "\<not> ucast (3 :: u32) \<ge> blk_capacity ready_driver div of_nat SECTOR_SIZE"
    by (simp add: ready_driver_def SECTOR_SIZE_def)
  have b: "length (descs (blk_request_vq ready_driver)) = VIRTQ_ENTRY_NUM"
    by (simp add: ready_driver_def zero_virtq_def)
  have c: "length (avail_ring (blk_request_vq ready_driver)) = VIRTQ_ENTRY_NUM"
    by (simp add: ready_driver_def zero_virtq_def)
  have d: "last_used_index (blk_request_vq ready_driver) + 1 \<in> set (rep_used good_reply)"
    by (simp add: ready_driver_def zero_virtq_def good_reply_def)
  have e: "last_used_index (blk_request_vq ready_driver) + 1 \<notin> set (rep_used silent_reply)"
    by (simp add: ready_driver_def zero_virtq_def silent_reply_def)
  show ?thesis
    using a b c d e
      read_write_disk_descriptor_chain
        [OF a b c, where dev = good_reply and buf = "replicate 512 1" and w = 0]
      read_write_disk_descriptor_chain
        [OF a b c, where dev = silent_reply and buf = "replicate 512 1" and w = 1]
    by blast
qed

section \<open>Properties of the scheduler\<close>

subsection \<open>The slots the loop visits\<close>

lemma slot_reached:
  assumes "idx < n"
  shows "(c + (idx + n - c mod n) mod n) mod n = (idx :: nat)"
proof -
  have n: "0 < n" using assms by simp
  then have r: "c mod n < n" by simp
  have "(c + (idx + n - c mod n) mod n) mod n = (c + (idx + n - c mod n)) mod n"
    by (simp add: mod_add_right_eq)
  also have "c + (idx + n - c mod n) = idx + (n * (c div n) + n)"
  proof -
    have "c = n * (c div n) + c mod n" by simp
    then show ?thesis using r by linarith
  qed
  also have "(idx + (n * (c div n) + n)) mod n = idx mod n"
    by (metis add.commute mod_add_self2 mod_mult_self2 add.assoc)
  finally show ?thesis using assms by simp
qed

lemma slot_inj_le:
  assumes "(c + j) mod n = (c + k) mod n" "j \<le> k" "k < (n::nat)"
  shows "j = k"
proof -
  have "c + j \<le> c + k" using assms(2) by simp
  then have "n dvd (c + k) - (c + j)"
    using assms(1) mod_eq_dvd_iff_nat [of "c + j" "c + k" n] by metis
  then have "n dvd k - j" by simp
  moreover have "k - j < n" using assms by simp
  ultimately have "k - j = 0" using dvd_imp_le by (metis gr0I not_le)
  then show ?thesis using assms by simp
qed

lemma slot_inj:
  assumes "(c + j) mod n = (c + k) mod n" "j < n" "k < (n::nat)"
  shows "j = k"
  using assms slot_inj_le [of c j n k] slot_inj_le [of c k n j]
  by (cases "j \<le> k") auto

lemma find_runnable_find:
  "find_runnable ps c i =
     List.find (\<lambda>idx. runnable_user (ps ! idx)) (map (\<lambda>j. (c + j) mod length ps) [i..<length ps])"
proof (induction ps c i rule: find_runnable.induct)
  case (1 ps c i)
  show ?case
  proof (cases "i < length ps")
    case True
    then have u: "[i..<length ps] = i # [i + 1..<length ps]" by (simp add: upt_conv_Cons)
    show ?thesis
      using True 1 by (subst find_runnable.simps) (simp add: u runnable_user_def)
  next
    case False
    then show ?thesis by (subst find_runnable.simps) simp
  qed
qed

lemma yield_next_find:
  "yield_next s =
     (case List.find (\<lambda>idx. runnable_user (procs s ! idx))
             (scan_order (pid (procs s ! current_proc s)) (length (procs s))) of
        None \<Rightarrow> idle_proc s
      | Some idx \<Rightarrow> idx)"
  by (simp add: yield_next_def find_runnable_find scan_order_def)

lemma scan_order_reaches:
  assumes "idx < n"
  shows "idx \<in> set (scan_order c n)"
proof -
  have "(idx + n - c mod n) mod n < n" using assms by simp
  moreover have "(c + (idx + n - c mod n) mod n) mod n = idx"
    by (rule slot_reached [OF assms])
  ultimately have "idx \<in> (\<lambda>i. (c + i) mod n) ` {0..<n}"
    by (intro image_eqI [where x = "(idx + n - c mod n) mod n"]) simp_all
  then show ?thesis by (simp add: scan_order_def)
qed

lemma scan_order_bound: "x \<in> set (scan_order c n) \<Longrightarrow> x < n"
  by (auto simp: scan_order_def)

lemma find_Some_props:
  assumes "List.find P xs = Some x"
  obtains i where "i < length xs" "xs ! i = x" "P x" "\<forall>j < i. \<not> P (xs ! j)"
  using assms unfolding find_Some_iff by blast

lemma find_runnable_user:
  assumes "idx < length ps" "runnable_user (ps ! idx)"
  shows "\<exists>k < length ps. find_runnable ps c 0 = Some k \<and> runnable_user (ps ! k)"
proof -
  let ?P = "\<lambda>idx. runnable_user (ps ! idx)"
  have "idx \<in> set (scan_order c (length ps))" by (rule scan_order_reaches [OF assms(1)])
  with assms(2) have "List.find ?P (scan_order c (length ps)) \<noteq> None"
    unfolding find_None_iff by blast
  then obtain k where k: "List.find ?P (scan_order c (length ps)) = Some k" by blast
  then obtain i where i: "i < length (scan_order c (length ps))"
      "scan_order c (length ps) ! i = k" "?P k"
    by (rule find_Some_props)
  from i(1,2) have "k \<in> set (scan_order c (length ps))" using nth_mem by blast
  then have "k < length ps" by (rule scan_order_bound)
  moreover have "find_runnable ps c 0 = Some k"
    using k by (simp add: find_runnable_find scan_order_def)
  ultimately show ?thesis using i(3) by blast
qed

lemma two_procs_next:
  assumes "a < length ps" "b < length ps" "a \<noteq> b"
      and "runnable_user (ps ! b)"
      and "\<forall>k < length ps. k \<noteq> a \<and> k \<noteq> b \<longrightarrow> \<not> runnable_user (ps ! k)"
  shows "find_runnable ps (a + 1) 0 = Some b"
proof -
  let ?n = "length ps"
  let ?xs = "scan_order (a + 1) ?n"
  have n: "0 < ?n" using assms(1) by linarith
  have len: "length ?xs = ?n" by (simp add: scan_order_def)
  have nth: "\<And>i. i < ?n \<Longrightarrow> ?xs ! i = (a + 1 + i) mod ?n" by (simp add: scan_order_def)
  obtain k where k: "k < ?n" "find_runnable ps (a + 1) 0 = Some k" "runnable_user (ps ! k)"
    using find_runnable_user [OF assms(2,4)] by blast
  have kab: "k = a \<or> k = b" using k(1,3) assms(5) by blast
  have "k \<noteq> a"
  proof
    assume "k = a"
    with k(2) have "List.find (\<lambda>idx. runnable_user (ps ! idx)) ?xs = Some a"
      by (simp add: find_runnable_find scan_order_def)
    then obtain i where i: "i < length ?xs" "?xs ! i = a"
      "\<forall>j < i. \<not> runnable_user (ps ! (?xs ! j))"
      by (rule find_Some_props)
    have i1: "i < ?n" using i(1) len by simp
    have ia: "(a + 1 + i) mod ?n = a" using i(2) nth [OF i1] by simp
    have "a + 1 + (?n - 1) = a + ?n" using n by linarith
    then have "(a + 1 + (?n - 1)) mod ?n = a" using assms(1) by simp
    with ia have "(a + 1 + i) mod ?n = (a + 1 + (?n - 1)) mod ?n" by simp
    then have il: "i = ?n - 1"
      using n i1 by (intro slot_inj [of "a + 1" i ?n "?n - 1"]) simp_all
    let ?j = "(b + ?n - (a + 1) mod ?n) mod ?n"
    have jb: "(a + 1 + ?j) mod ?n = b" by (rule slot_reached [OF assms(2)])
    have jn: "?j < ?n" using n by (rule mod_less_divisor)
    have "?j \<noteq> i" using jb ia assms(3) by auto
    with jn il have "?j < i" by simp
    with i(3) have "\<not> runnable_user (ps ! (?xs ! ?j))" by blast
    then show False using jb nth [OF jn] assms(4) by simp
  qed
  with kab k(2) show ?thesis by simp
qed

lemma yield_current: "current_proc (yield s) = yield_next s"
  by (simp add: yield_def switch_context_def Let_def)

lemma map_update_same: "(map f xs)[i := f (xs ! i)] = map f xs"
proof (cases "i < length xs")
  case True
  then show ?thesis by (simp add: list_update_same_conv)
next
  case False
  then show ?thesis by (simp add: list_update_beyond)
qed

lemma yield_keeps_pid_state:
  "map pid (procs (yield s)) = map pid (procs s)"
  "map state (procs (yield s)) = map state (procs s)"
  by (simp_all add: yield_def switch_context_def Let_def map_update map_update_same)

subsection \<open>The order of the scan\<close>

text \<open>
  C4, as amended. The claim lets the scan run over \<open>i = 1 .. PROCS_MAX - 1\<close>. The loop
  of \<open>yield\<close> runs over \<open>i = 0 .. PROCS_MAX - 1\<close>: it visits the slots
  \<open>(current_proc->pid + i) % PROCS_MAX\<close> in that order, takes the first that is RUNNABLE
  with a positive pid, and falls back to the idle process when there is none. Since
  \<open>create_process\<close> gives the process in slot \<open>k\<close> the pid \<open>k + 1\<close>, the scan starts at
  the slot after the current one and reaches the current process last. In particular,
  when two processes A and B sit in slots \<open>a\<close> and \<open>b\<close> with the pids of these slots
  (pid 1 in slot 0 and pid 2 in slot 1 for the claim's A and B) and no other slot is
  RUNNABLE with a positive pid, a yield by A selects B and a yield by B selects A.
\<close>

theorem yield_scan_order:
  "yield_next s =
     (case List.find (\<lambda>idx. runnable_user (procs s ! idx))
             (map (\<lambda>i. (pid (procs s ! current_proc s) + i) mod length (procs s))
                [0..<length (procs s)]) of
        None \<Rightarrow> idle_proc s
      | Some idx \<Rightarrow> idx) \<and>
   (only_runnable a b s \<longrightarrow>
      (current_proc s = a \<longrightarrow> yield_next s = b \<and> current_proc (yield s) = b) \<and>
      (current_proc s = b \<longrightarrow> yield_next s = a \<and> current_proc (yield s) = a))"
proof (intro conjI impI)
  show "yield_next s =
     (case List.find (\<lambda>idx. runnable_user (procs s ! idx))
             (map (\<lambda>i. (pid (procs s ! current_proc s) + i) mod length (procs s))
                [0..<length (procs s)]) of
        None \<Rightarrow> idle_proc s
      | Some idx \<Rightarrow> idx)"
    using yield_next_find [of s] by (simp add: scan_order_def)
next
  assume o: "only_runnable a b s" and c: "current_proc s = a"
  have rb: "runnable_user (procs s ! b)" using o by (simp add: only_runnable_def runnable_user_def)
  have "find_runnable (procs s) (a + 1) 0 = Some b"
    using o rb by (intro two_procs_next) (simp_all add: only_runnable_def)
  then show "yield_next s = b" using o c by (simp add: yield_next_def only_runnable_def)
  then show "current_proc (yield s) = b" by (simp add: yield_current)
next
  assume o: "only_runnable a b s" and c: "current_proc s = b"
  have ra: "runnable_user (procs s ! a)" using o by (simp add: only_runnable_def runnable_user_def)
  have "find_runnable (procs s) (b + 1) 0 = Some a"
    using o ra by (intro two_procs_next) (auto simp: only_runnable_def)
  then show "yield_next s = a" using o c by (simp add: yield_next_def only_runnable_def)
  then show "current_proc (yield s) = a" by (simp add: yield_current)
qed

lemma only_runnable_two_procs: "only_runnable 0 1 two_procs"
  by (simp add: only_runnable_def two_procs_def runnable_user_def less_Suc_eq numeral_eq_Suc)

theorem yield_scan_order_witness:
  "only_runnable 0 1 two_procs \<and>
   yield_next two_procs = 1 \<and>
   current_proc (two_procs\<lparr>current_proc := 1\<rparr>) = 1 \<and>
   yield_next (two_procs\<lparr>current_proc := 1\<rparr>) = 0"
proof -
  have o: "only_runnable 0 1 two_procs" by (rule only_runnable_two_procs)
  then have o': "only_runnable 0 1 (two_procs\<lparr>current_proc := 1\<rparr>)"
    by (simp add: only_runnable_def)
  have c: "current_proc two_procs = 0" by (simp add: two_procs_def)
  show ?thesis
    using o o' c yield_scan_order [of two_procs 0 1]
      yield_scan_order [of "two_procs\<lparr>current_proc := 1\<rparr>" 0 1]
    by simp
qed

text \<open>
  With A (pid 1, slot 0) running and B (pid 2, slot 1) runnable, \<open>yield\<close> selects B,
  found at \<open>i = 0\<close>. The scan over \<open>i = 1 .. PROCS_MAX - 1\<close> never visits slot 1 and
  ends at A itself.
\<close>

theorem yield_scan_from_one_counterexample:
  "yield_next two_procs = 1 \<and> spec_yield_next two_procs = 0"
  by code_simp

subsection \<open>The idle process\<close>

text \<open>
  C5. Whenever some slot of the process table is RUNNABLE with a positive pid, the
  process \<open>yield\<close> selects, which is the current process afterwards, is RUNNABLE and
  has a positive pid, before the switch and after it (\<open>yield\<close> changes no pid and no
  state): it is not the idle process, whose pid is 0.
\<close>

theorem yield_never_idle:
  assumes "idx < length (procs s)"
      and "state (procs s ! idx) = PROC_RUNNABLE" and "pid (procs s ! idx) > 0"
  shows "state (procs s ! yield_next s) = PROC_RUNNABLE \<and>
         pid (procs s ! yield_next s) > 0 \<and>
         current_proc (yield s) = yield_next s \<and>
         state (procs (yield s) ! current_proc (yield s)) = PROC_RUNNABLE \<and>
         pid (procs (yield s) ! current_proc (yield s)) > 0 \<and>
         map pid (procs (yield s)) = map pid (procs s) \<and>
         map state (procs (yield s)) = map state (procs s) \<and>
         (pid (procs s ! idle_proc s) = 0 \<longrightarrow> yield_next s \<noteq> idle_proc s)"
proof -
  have "runnable_user (procs s ! idx)" using assms(2,3) by (simp add: runnable_user_def)
  then obtain k where k: "k < length (procs s)"
      "find_runnable (procs s) (pid (procs s ! current_proc s)) 0 = Some k"
      "runnable_user (procs s ! k)"
    using find_runnable_user [OF assms(1)] by blast
  then have y: "yield_next s = k" by (simp add: yield_next_def)
  have len: "length (procs (yield s)) = length (procs s)"
    using yield_keeps_pid_state(1) [of s] by (metis length_map)
  have "pid (procs (yield s) ! k) = map pid (procs (yield s)) ! k"
    using k(1) len by simp
  then have p: "pid (procs (yield s) ! k) = pid (procs s ! k)"
    using k(1) by (simp add: yield_keeps_pid_state)
  have "state (procs (yield s) ! k) = map state (procs (yield s)) ! k"
    using k(1) len by simp
  then have q: "state (procs (yield s) ! k) = state (procs s ! k)"
    using k(1) by (simp add: yield_keeps_pid_state)
  show ?thesis
    using k(3) y p q by (auto simp: runnable_user_def yield_current yield_keeps_pid_state)
qed

theorem yield_never_idle_witness:
  "(1::nat) < length (procs boot_kernel) \<and>
   state (procs boot_kernel ! 1) = PROC_RUNNABLE \<and> pid (procs boot_kernel ! 1) > 0 \<and>
   pid (procs boot_kernel ! idle_proc boot_kernel) = 0 \<and>
   pid (procs boot_kernel ! yield_next boot_kernel) > 0 \<and>
   pid (procs (yield boot_kernel) ! current_proc (yield boot_kernel)) > 0 \<and>
   yield_next boot_kernel \<noteq> idle_proc boot_kernel"
proof -
  have a: "(1::nat) < length (procs boot_kernel)"
    and b: "state (procs boot_kernel ! 1) = PROC_RUNNABLE"
    and c: "pid (procs boot_kernel ! 1) > 0"
    and d: "pid (procs boot_kernel ! idle_proc boot_kernel) = 0"
    by (simp_all add: boot_kernel_def)
  show ?thesis
    using a b c d yield_never_idle [OF a b c] by blast
qed

section \<open>Properties of the trap path\<close>

subsection \<open>Return address\<close>

text \<open>
  C6. When \<open>scause\<close> is 8, a \<open>handle_trap\<close> that returns has written to \<open>sepc\<close> the
  value it read from \<open>sepc\<close> on entry plus 4, whatever the system call did and whatever
  ran in between; \<open>sret\<close> in \<open>kernel_entry\<close> continues there. For every other
  \<open>scause\<close>, \<open>handle_trap\<close> panics and does not return.
\<close>

theorem handle_trap_advances_sepc:
  "(scause s = SCAUSE_ECALL \<and> handle_trap env f s = Inr (f', s') \<longrightarrow> sepc s' = sepc s + 4) \<and>
   (scause s = SCAUSE_ECALL \<and> kernel_entry env regs s = Inr (regs', pc', s'') \<longrightarrow>
      pc' = sepc s + 4 \<and> sepc s'' = sepc s + 4) \<and>
   (scause s \<noteq> SCAUSE_ECALL \<longrightarrow>
      handle_trap env f s = Inl (Panic ''unexpected trap'') \<and>
      kernel_entry env regs s = Inl (Panic ''unexpected trap''))"
  by (auto simp: handle_trap_def kernel_entry_def Let_def split: sum.splits prod.splits)

theorem handle_trap_advances_sepc_witness:
  "scause boot_kernel = SCAUSE_ECALL \<and>
   (\<exists>s''. kernel_entry quiet_env (user_regs 65 0 0 1) boot_kernel
            = Inr (user_regs 65 0 0 1, 0x1000044, s'') \<and> sepc s'' = 0x1000044) \<and>
   scause (boot_kernel\<lparr>scause := 13\<rparr>) \<noteq> SCAUSE_ECALL \<and>
   handle_trap quiet_env (user_regs 65 0 0 1) (boot_kernel\<lparr>scause := 13\<rparr>)
     = Inl (Panic ''unexpected trap'')"
proof -
  have a: "scause boot_kernel = SCAUSE_ECALL" by (simp add: boot_kernel_def sys_consts)
  have b: "scause (boot_kernel\<lparr>scause := 13\<rparr>) \<noteq> SCAUSE_ECALL" by (simp add: sys_consts)
  obtain s'' where k: "kernel_entry quiet_env (user_regs 65 0 0 1) boot_kernel
      = Inr (user_regs 65 0 0 1, sepc s'', s'')"
    by (simp add: kernel_entry_def handle_trap_def handle_syscall_def Let_def user_regs_def
        boot_kernel_def sys_consts)
  have pc: "sepc boot_kernel = 0x1000040" by (simp add: boot_kernel_def)
  have e: "sepc s'' = sepc boot_kernel + 4"
    using a k
      handle_trap_advances_sepc [where s = boot_kernel and env = quiet_env
        and regs = "user_regs 65 0 0 1" and regs' = "user_regs 65 0 0 1" and pc' = "sepc s''"
        and s'' = s'']
    by blast
  have p: "handle_trap quiet_env (user_regs 65 0 0 1) (boot_kernel\<lparr>scause := 13\<rparr>)
     = Inl (Panic ''unexpected trap'')"
    using b
      handle_trap_advances_sepc [where s = "boot_kernel\<lparr>scause := 13\<rparr>" and env = quiet_env
        and f = "user_regs 65 0 0 1"]
    by blast
  have "sepc s'' = 0x1000044" using e pc by simp
  then show ?thesis using a b k p by auto
qed

subsection \<open>SYS_PUTCHAR\<close>

text \<open>
  C10. For \<open>SYS_PUTCHAR\<close>, \<open>handle_syscall\<close> returns the trap frame as it received
  it: no slot is written, \<open>a0\<close> included. After \<open>sret\<close> the registers of the process
  are the ones it trapped with, so \<open>a0\<close> still holds the character.
\<close>

theorem putchar_leaves_frame:
  assumes "f A3 = SYS_PUTCHAR"
  shows "handle_syscall env f s = Inr (f, s\<lparr>printed := printed s @ [PutChar (ucast (f A0))]\<rparr>) \<and>
         (scause s = SCAUSE_ECALL \<longrightarrow>
            (\<exists>s'. kernel_entry env f s = Inr (f, sepc s + 4, s') \<and>
                   printed s' = printed s @ [PutChar (ucast (f A0))]))"
  using assms
  by (simp add: handle_syscall_def kernel_entry_def handle_trap_def Let_def)

theorem putchar_leaves_frame_witness:
  "user_regs 65 0 0 1 A3 = SYS_PUTCHAR \<and> scause boot_kernel = SCAUSE_ECALL \<and>
   (\<exists>s'. kernel_entry quiet_env (user_regs 65 0 0 1) boot_kernel
             = Inr (user_regs 65 0 0 1, sepc boot_kernel + 4, s') \<and>
          printed s' = printed boot_kernel @ [PutChar 65]) \<and>
   user_regs 65 0 0 1 A0 = 65"
proof -
  have a: "user_regs 65 0 0 1 A3 = SYS_PUTCHAR" by (simp add: user_regs_def sys_consts)
  have b: "scause boot_kernel = SCAUSE_ECALL" by (simp add: boot_kernel_def sys_consts)
  have c: "user_regs 65 0 0 1 A0 = 65" by (simp add: user_regs_def)
  show ?thesis
    using a b c putchar_leaves_frame
      [where f = "user_regs 65 0 0 1" and env = quiet_env and s = boot_kernel]
    by simp
qed

subsection \<open>File system calls\<close>

lemma negative_unat:
  assumes "sint (w :: u32) < 0"
  shows "2147483648 \<le> unat w"
proof -
  have g: "- 2147483648 \<le> sint w" using sint_ge [of w] by simp
  have "uint w = sint w mod 4294967296" using uint_sint [of w] by (simp add: take_bit_eq_mod)
  also have "\<dots> = (sint w + 4294967296) mod 4294967296" by simp
  also have "\<dots> = sint w + 4294967296" using g assms by (intro mod_pos_pos_trivial) linarith+
  finally have "2147483648 \<le> uint w" using g by linarith
  then have "2147483648 \<le> int (unat w)" by (simp only: uint_nat)
  then show ?thesis by linarith
qed

lemma unat_of_nat_u32: "i < 2 ^ 32 \<Longrightarrow> unat (of_nat i :: u32) = i"
  by (simp add: unat_of_nat)

lemma read_write_mem:
  assumes "n \<le> length bs" "length bs \<le> 2 ^ 32"
  shows "read_mem (write_mem m p bs) p n = take n bs"
proof (rule nth_equalityI)
  show "length (read_mem (write_mem m p bs) p n) = length (take n bs)"
    using assms by (simp add: read_mem_def)
next
  fix i assume "i < length (read_mem (write_mem m p bs) p n)"
  then have i: "i < n" by (simp add: read_mem_def)
  then have "i < 2 ^ 32" using assms by simp
  then have "unat (of_nat i :: u32) = i" by (rule unat_of_nat_u32)
  then show "read_mem (write_mem m p bs) p n ! i = take n bs ! i"
    using i assms by (simp add: read_mem_def write_mem_def)
qed

lemma fs_lookup_from_bound:
  "fs_lookup_from k m p fs = Some i \<Longrightarrow> k \<le> i \<and> i < k + length fs"
  by (induction fs arbitrary: k) (fastforce split: if_splits)+

lemma fs_lookup_bound: "fs_lookup p s = Some i \<Longrightarrow> i < length (files s)"
  using fs_lookup_from_bound [of 0 "mem s" p "files s" i] by (simp add: fs_lookup_def)

lemma boot_kernel_lookup: "fs_lookup 0x1000100 boot_kernel = Some 0"
  by (simp add: fs_lookup_def boot_kernel_def c_string_def hello_txt_def world_def
      write_mem_def)

lemma clamp_len_negative: "sint a2 < 0 \<Longrightarrow> clamp_len file a2 = a2"
  by (simp add: clamp_len_def)

text \<open>
  C9, as amended. On an existing file, a length \<open>a2\<close> that is negative as a signed
  32-bit integer is not clamped: the comparison with the capacity is signed. The value
  goes to \<open>memcpy\<close> as its length, at least \<open>2^31\<close> as a \<open>size_t\<close> and more than the
  slot holds (its capacity, \<open>(int) sizeof(file->data)\<close> in the source, is below
  \<open>2^31\<close>), so the capacity check does not protect the slot. The copy runs out of
  the slot and the call does not return: \<open>file->size\<close> and \<open>a0\<close>, which the source
  assigns after the copy, are not written.
\<close>

theorem negative_length_not_clamped:
  assumes "fs_lookup (f A0) s = Some i"
      and "sint (f A2) < 0"
      and "f A3 = SYS_READFILE \<or> f A3 = SYS_WRITEFILE"
      and "length (file_data (files s ! i)) < 2147483648"
  shows "clamp_len (files s ! i) (f A2) = f A2 \<and>
         2147483648 \<le> unat (f A2) \<and>
         length (file_data (files s ! i)) < unat (f A2) \<and>
         handle_syscall env f s = Inl (OutOfBounds (unat (f A2)))"
proof -
  have c: "clamp_len (files s ! i) (f A2) = f A2" using assms(2) by (rule clamp_len_negative)
  have n: "2147483648 \<le> unat (f A2)" using assms(2) by (rule negative_unat)
  have l: "length (file_data (files s ! i)) < unat (f A2)" using n assms(4) by linarith
  then have nl: "\<not> unat (f A2) \<le> length (file_data (files s ! i))" by simp
  have "handle_syscall env f s = Inl (OutOfBounds (unat (f A2)))"
    using assms(1,3) c nl
    by (auto simp: handle_syscall_def sys_file_def Let_def sys_consts memcpy_to_file_def
        memcpy_from_file_def)
  with c n l show ?thesis by blast
qed

theorem negative_length_not_clamped_witness:
  "fs_lookup (user_regs 0x1000100 0x1000200 0xFFFFFFFF 4 A0) boot_kernel = Some 0 \<and>
   sint (user_regs 0x1000100 0x1000200 0xFFFFFFFF 4 A2) < 0 \<and>
   user_regs 0x1000100 0x1000200 0xFFFFFFFF 4 A3 = SYS_WRITEFILE \<and>
   length (file_data (files boot_kernel ! 0)) < 2147483648 \<and>
   handle_syscall quiet_env (user_regs 0x1000100 0x1000200 0xFFFFFFFF 4) boot_kernel
     = Inl (OutOfBounds 4294967295)"
proof -
  let ?f = "user_regs 0x1000100 0x1000200 0xFFFFFFFF 4"
  have a: "fs_lookup (?f A0) boot_kernel = Some 0"
    using boot_kernel_lookup by (simp add: user_regs_def)
  have b: "sint (?f A2) < 0" by (simp add: user_regs_def)
  have c: "?f A3 = SYS_WRITEFILE" by (simp add: user_regs_def sys_consts)
  have d: "length (file_data (files boot_kernel ! 0)) < 2147483648"
    by (simp add: boot_kernel_def)
  have e: "unat (?f A2) = 4294967295" by (simp add: user_regs_def)
  have "handle_syscall quiet_env ?f boot_kernel = Inl (OutOfBounds (unat (?f A2)))"
    using a b c d negative_length_not_clamped [where f = ?f and s = boot_kernel and i = 0
        and env = quiet_env]
    by blast
  then show ?thesis using a b c d by (simp only: e)
qed

text \<open>
  On the booted kernel, \<open>SYS_WRITEFILE\<close> on \<open>hello.txt\<close> with the length \<open>-1\<close> does
  not return: no value is written to \<open>a0\<close>, where the claim has the length returned
  there and stored in \<open>file->size\<close>.
\<close>

theorem negative_length_returns_nothing_counterexample:
  "handle_syscall quiet_env (user_regs 0x1000100 0x1000200 0xFFFFFFFF 4) boot_kernel
     = Inl (OutOfBounds 4294967295) \<and>
   result_a0 (handle_syscall quiet_env (user_regs 0x1000100 0x1000200 0xFFFFFFFF 4) boot_kernel)
     = None"
  by (simp add: result_a0_def handle_syscall_def sys_file_def fs_lookup_def user_regs_def
      boot_kernel_def sys_consts c_string_def hello_txt_def world_def write_mem_def
      clamp_len_def Let_def memcpy_to_file_def)

lemma length_read_mem [simp]: "length (read_mem m p n) = n"
  by (simp add: read_mem_def)

lemma sys_write_5_returns:
  assumes "fw A3 = SYS_WRITEFILE" "fw A2 = 5" "fs_lookup (fw A0) s = Some i"
      and "5 \<le> length (file_data (files s ! i))"
  shows "handle_syscall env fw s =
     Inr (fw(A0 := 5),
          fs_flush (s\<lparr>files := (files s)[i := (files s ! i)\<lparr>file_data :=
             read_mem (mem s) (fw A1) 5 @ drop 5 (file_data (files s ! i)),
             file_size := 5\<rparr>]\<rparr>))"
proof -
  have c: "clamp_len (files s ! i) 5 = 5" using assms(4) by (simp add: clamp_len_def)
  have "sys_file fw s =
     Inr (fw(A0 := 5),
          fs_flush (s\<lparr>files := (files s)[i := (files s ! i)\<lparr>file_data :=
             read_mem (mem s) (fw A1) 5 @ drop 5 (file_data (files s ! i)),
             file_size := 5\<rparr>]\<rparr>))"
    using assms c by (simp add: sys_file_def Let_def memcpy_to_file_def memcpy_def)
  then show ?thesis using assms(1) by (simp add: handle_syscall_def sys_consts)
qed

lemma sys_write_5:
  assumes "fw A3 = SYS_WRITEFILE" "fw A2 = 5" "fs_lookup (fw A0) s = Some i"
      and "5 \<le> length (file_data (files s ! i))"
      and "handle_syscall env fw s = Inr (f1, s1)"
  shows "f1 = fw(A0 := 5)"
    and "files s1 ! i = (files s ! i)\<lparr>file_data :=
            read_mem (mem s) (fw A1) 5 @ drop 5 (file_data (files s ! i)), file_size := 5\<rparr>"
    and "disk_files s1 = filter file_in_use (files s1)"
proof -
  have i: "i < length (files s)" using assms(3) by (rule fs_lookup_bound)
  from assms(5) sys_write_5_returns [OF assms(1-4), of env]
  have f1: "f1 = fw(A0 := 5)"
    and s1: "s1 = fs_flush (s\<lparr>files := (files s)[i := (files s ! i)\<lparr>file_data :=
             read_mem (mem s) (fw A1) 5 @ drop 5 (file_data (files s ! i)),
             file_size := 5\<rparr>]\<rparr>)"
    by simp_all
  show "f1 = fw(A0 := 5)" by (rule f1)
  show "files s1 ! i = (files s ! i)\<lparr>file_data :=
            read_mem (mem s) (fw A1) 5 @ drop 5 (file_data (files s ! i)), file_size := 5\<rparr>"
    using i by (simp add: s1 fs_flush_def)
  show "disk_files s1 = filter file_in_use (files s1)"
    by (simp add: s1 fs_flush_def)
qed

lemma sys_read_100:
  assumes "fr A3 = SYS_READFILE" "fr A2 = 100" "fs_lookup (fr A0) s2 = Some i"
      and "100 \<le> length (file_data (files s2 ! i))"
  shows "\<exists>f2 s3. handle_syscall env fr s2 = Inr (f2, s3) \<and>
           f2 A0 = 100 \<and>
           read_mem (mem s3) (fr A1) 5 = take 5 (file_data (files s2 ! i))"
proof -
  let ?d = "file_data (files s2 ! i)"
  have c: "clamp_len (files s2 ! i) 100 = 100"
    using assms(4) by (simp add: clamp_len_def)
  have l1: "5 \<le> length (take 100 ?d)" using assms(4) by simp
  have l2: "length (take 100 ?d) \<le> 2 ^ 32" by simp
  have "read_mem (write_mem (mem s2) (fr A1) (take 100 ?d)) (fr A1) 5
        = take 5 (take 100 ?d)"
    by (rule read_write_mem [OF l1 l2])
  then have rd: "read_mem (write_mem (mem s2) (fr A1) (take 100 ?d)) (fr A1) 5 = take 5 ?d"
    by simp
  show ?thesis
    using assms c rd
    by (simp add: handle_syscall_def sys_file_def Let_def sys_consts memcpy_from_file_def)
qed

text \<open>
  C1, as amended. After \<open>SYS_WRITEFILE(name, buf, 5)\<close> on an existing file, which
  returns 5, sets \<open>file->size\<close> to 5, copies the 5 bytes and flushes, a later
  \<open>SYS_READFILE(name, buf', 100)\<close> on the same file table, by any process, leaves
  those 5 bytes at the start of \<open>buf'\<close> and returns 100 in \<open>a0\<close>: the requested
  length, which a slot of at least 100 bytes (1024 in the data model) does not clamp.
\<close>

theorem write_then_read:
  assumes "fw A3 = SYS_WRITEFILE" "fw A2 = 5" "fs_lookup (fw A0) s = Some i"
      and "100 \<le> length (file_data (files s ! i))"
      and "handle_syscall env fw s = Inr (f1, s1)"
      and "fr A3 = SYS_READFILE" "fr A2 = 100" "files s2 = files s1"
      and "fs_lookup (fr A0) s2 = Some i"
  shows "f1 A0 = 5 \<and> file_size (files s1 ! i) = 5 \<and>
         take 5 (file_data (files s1 ! i)) = read_mem (mem s) (fw A1) 5 \<and>
         disk_files s1 = filter file_in_use (files s1) \<and>
         (\<exists>f2 s3. handle_syscall env' fr s2 = Inr (f2, s3) \<and>
            f2 A0 = 100 \<and>
            read_mem (mem s3) (fr A1) 5 = read_mem (mem s) (fw A1) 5)"
proof -
  have c5: "5 \<le> length (file_data (files s ! i))" using assms(4) by simp
  note w = sys_write_5 [OF assms(1-3) c5 assms(5)]
  have d: "file_data (files s1 ! i) = read_mem (mem s) (fw A1) 5 @ drop 5 (file_data (files s ! i))"
    and z: "file_size (files s1 ! i) = 5"
    by (simp_all add: w(2))
  have len: "length (file_data (files s1 ! i)) = length (file_data (files s ! i))"
    using c5 by (simp add: d)
  have t: "take 5 (file_data (files s1 ! i)) = read_mem (mem s) (fw A1) 5" by (simp add: d)
  have "\<exists>f2 s3. handle_syscall env' fr s2 = Inr (f2, s3) \<and>
           f2 A0 = 100 \<and>
           read_mem (mem s3) (fr A1) 5 = take 5 (file_data (files s2 ! i))"
    using len assms(4) by (intro sys_read_100 [OF assms(6,7,9)]) (simp add: assms(8))
  then show ?thesis using w(1,3) z t by (simp add: assms(8))
qed

theorem write_then_read_witness:
  "user_regs 0x1000100 0x1000200 5 4 A3 = SYS_WRITEFILE \<and>
   user_regs 0x1000100 0x1000200 5 4 A2 = 5 \<and>
   fs_lookup (user_regs 0x1000100 0x1000200 5 4 A0) boot_kernel = Some 0 \<and>
   100 \<le> length (file_data (files boot_kernel ! 0)) \<and>
   read_mem (mem boot_kernel) (user_regs 0x1000100 0x1000200 5 4 A1) 5 = world \<and>
   (\<exists>f1 s1. handle_syscall quiet_env (user_regs 0x1000100 0x1000200 5 4) boot_kernel = Inr (f1, s1) \<and>
      f1 A0 = 5 \<and> file_size (files s1 ! 0) = 5 \<and> take 5 (file_data (files s1 ! 0)) = world \<and>
      (\<exists>f2 s3. handle_syscall quiet_env (user_regs 0x1000100 0x1000300 100 3) s1 = Inr (f2, s3) \<and>
         f2 A0 = 100 \<and> read_mem (mem s3) 0x1000300 5 = world))"
proof -
  let ?fw = "user_regs 0x1000100 0x1000200 5 4"
  let ?fr = "user_regs 0x1000100 0x1000300 100 3"
  have a: "?fw A3 = SYS_WRITEFILE" "?fw A2 = 5" "?fr A3 = SYS_READFILE" "?fr A2 = 100"
    "?fw A0 = 0x1000100" "?fr A0 = 0x1000100" "?fw A1 = 0x1000200" "?fr A1 = 0x1000300"
    by (simp_all add: user_regs_def sys_consts)
  have l: "fs_lookup (?fw A0) boot_kernel = Some 0" using boot_kernel_lookup by (simp add: a)
  have c: "100 \<le> length (file_data (files boot_kernel ! 0))"
    by (simp add: boot_kernel_def)
  have r: "read_mem (mem boot_kernel) (?fw A1) 5 = world"
    by (simp add: a read_mem_def boot_kernel_def write_mem_def world_def upt_conv_Cons)
  have c5: "5 \<le> length (file_data (files boot_kernel ! 0))" using c by simp
  define s1 where "s1 = fs_flush (boot_kernel\<lparr>files := (files boot_kernel)[0 :=
       (files boot_kernel ! 0)\<lparr>file_data :=
          read_mem (mem boot_kernel) (?fw A1) 5 @ drop 5 (file_data (files boot_kernel ! 0)),
          file_size := 5\<rparr>]\<rparr>)"
  have h: "handle_syscall quiet_env ?fw boot_kernel = Inr (?fw(A0 := 5), s1)"
    unfolding s1_def by (rule sys_write_5_returns [OF a(1,2) l c5])
  have m: "mem s1 = mem boot_kernel"
    "map file_name (files s1) = map file_name (files boot_kernel)"
    by (simp_all add: s1_def fs_flush_def map_update boot_kernel_def)
  have "fs_lookup_from k (mem s1) p (files s1) = fs_lookup_from k (mem boot_kernel) p (files boot_kernel)"
    for k p
    by (simp add: s1_def fs_flush_def boot_kernel_def)
  then have l2: "fs_lookup (?fr A0) s1 = Some 0"
    using boot_kernel_lookup by (simp add: a fs_lookup_def)
  show ?thesis
    using a(1,2) l c r h
      write_then_read [OF a(1,2) l c h a(3,4) refl l2, of quiet_env]
    by (simp add: r c a)
qed

text \<open>
  On the booted kernel, with its slot of 1024 bytes, the write of \<open>world\<close> to
  \<open>hello.txt\<close> returns 5 and the read of 100 bytes that follows returns 100.
\<close>

theorem read_returns_requested_length_counterexample:
  "result_a0 (handle_syscall quiet_env (user_regs 0x1000100 0x1000200 5 4) boot_kernel) = Some 5 \<and>
   result_a0 (syscall_then quiet_env (user_regs 0x1000100 0x1000200 5 4)
                (user_regs 0x1000100 0x1000300 100 3) boot_kernel) = Some 100"
  by (simp add: result_a0_def syscall_then_def handle_syscall_def sys_file_def fs_lookup_def
      user_regs_def boot_kernel_def sys_consts c_string_def hello_txt_def world_def
      write_mem_def clamp_len_def Let_def fs_flush_def memcpy_to_file_def memcpy_def
      memcpy_from_file_def)

end
